theory Spec2Isabelle
  imports Main "HOL-Library.Multiset"
begin

section \<open>simple-do-spaces: the SpacesClient of src/index.js\<close>

text \<open>
  The client wraps three collaborators that are not code of the repository: the S3 client
  of the aws-sdk, the HTTP client axios (for the CDN management API) and the platform
  (the URL class, the fs and path modules, mime-types, exponential-backoff).
  The collaborators are parameters of the model: a record of functions over a world
  \<open>'w\<close> that they may read and change. Every method of the client is a function from
  a state to a result and a new state; a rejected promise or a thrown exception is
  \<open>Inl\<close> of the error. Every call that reaches a collaborator is appended to the
  field \<open>calls\<close> of the state, in the order the code issues them.
\<close>

subsection \<open>Values, errors, records of the gateways\<close>

datatype error =
    Error string        \<comment> \<open>\<open>new Error(message)\<close>\<close>
  | TypeError string    \<comment> \<open>a TypeError of the runtime\<close>
  | ServiceError string \<comment> \<open>a failure of a collaborator, by its code\<close>
  | Uncaught error      \<comment> \<open>an exception that no handler catches: the promise stays pending\<close>

text \<open>The values the code puts into the parameter object of \<open>s3client.upload\<close>.\<close>

datatype pval =
    Str string
  | Bool bool
  | ReadStream string   \<comment> \<open>\<open>fs.createReadStream(path)\<close>\<close>

type_synonym params = "(string \<times> pval) list"

text \<open>A record of the listing (\<open>data.Contents\<close>): the key and what else the gateway
  reports. \<open>LastModified\<close> is a Date, held as its \<open>getTime()\<close>, epoch milliseconds.
  An object that has a \<open>Key\<close> and nothing else is a \<open>keyed\<close>.\<close>

record keyed =
  Key :: string

record s3object = keyed +
  LastModified :: int
  ETag :: string
  Size :: nat
  StorageClass :: string

text \<open>An endpoint of the CDN management API.\<close>

record cdn_endpoint =
  endpoint_id :: string
  origin :: string

record http_request =
  req_url :: string
  req_method :: "string option"
  req_authorization :: string
  req_files :: "string list option"

text \<open>Of a response of axios the code reads \<open>data.endpoints\<close> only; \<open>None\<close> is a
  body without that field.\<close>

record http_response =
  data_endpoints :: "cdn_endpoint list option"

text \<open>A URL object by its components, named as the attributes of the URL class.\<close>

record url =
  url_protocol :: string
  url_host :: string
  url_pathname :: string
  url_search :: string
  url_hash :: string

datatype call =
    S3Upload params
  | S3ListObjectsV2 string string
  | S3DeleteObjects string "string list"
  | S3GetObject string string
  | AxiosRequest http_request
  | FsMkdir string
  | FsCreateWriteStream string

subsection \<open>The collaborators\<close>

text \<open>
  \<open>s3_getObject\<close> is what becomes of a \<open>getObject\<close> request that is read as a stream.
  \<open>Inl e\<close>: the request fails before the body arrives and emits its \<open>error\<close> event
  with \<open>e\<close>. \<open>Inr (chunks, failure)\<close>: the response has begun and the read stream
  delivers \<open>chunks\<close>; with \<open>failure = Some e\<close> the transfer breaks after them, which
  the SDK reports on the read stream, not on the request, and the read stream ends.
  \<open>fs_open\<close> is the opening of a file for writing by a write stream. \<open>url_new\<close> is
  \<open>new URL(s)\<close>, \<open>None\<close> when it throws; \<open>url_set_host\<close> is the setter of \<open>host\<close>
  and \<open>url_href\<close> the getter of \<open>href\<close>.
\<close>

record 'w platform =
  s3_upload :: "params \<Rightarrow> 'w \<Rightarrow> (error + unit) \<times> 'w"
  s3_listObjectsV2 :: "string \<Rightarrow> string \<Rightarrow> 'w \<Rightarrow> (error + s3object list) \<times> 'w"
  s3_deleteObjects :: "string \<Rightarrow> string list \<Rightarrow> 'w \<Rightarrow> (error + unit) \<times> 'w"
  s3_getObject ::
    "string \<Rightarrow> string \<Rightarrow> 'w \<Rightarrow> (error + string list \<times> error option) \<times> 'w"
  axios :: "http_request \<Rightarrow> 'w \<Rightarrow> (error + http_response) \<times> 'w"
  fs_mkdir :: "string \<Rightarrow> 'w \<Rightarrow> (error + unit) \<times> 'w"
  fs_open :: "string \<Rightarrow> 'w \<Rightarrow> (error + unit) \<times> 'w"
  path_dirname :: "string \<Rightarrow> string"
  mime_lookup :: "string \<Rightarrow> string option"
  url_new :: "string \<Rightarrow> url option"
  url_set_host :: "url \<Rightarrow> string \<Rightarrow> url"
  url_href :: "url \<Rightarrow> string"

subsection \<open>The client and the state\<close>

record client =
  endpoint :: string
  bucket :: string
  digitalOceanAPIToken :: "string option"
  cdnEndpointId :: "string option"
  customCdnHost :: "string option"

text \<open>\<open>files\<close> are the regular files of the local file system, by path.\<close>

record 'w state =
  self :: client
  world :: 'w
  files :: "string \<Rightarrow> string option"
  calls :: "call list"

text \<open>The truth value JavaScript gives a string or null: null and the empty string
  are false.\<close>

definition truthy :: "string option \<Rightarrow> bool" where
  "truthy v = (case v of None \<Rightarrow> False | Some s \<Rightarrow> s \<noteq> [])"

text \<open>A string or null inside a template literal.\<close>

definition template :: "string option \<Rightarrow> string" where
  "template v = (case v of None \<Rightarrow> ''null'' | Some s \<Rightarrow> s)"

text \<open>Setting a property of an object literal: an existing key keeps its place and takes
  the new value, a new key goes last. \<open>spread\<close> is \<open>{...base, ...extra}\<close>.\<close>

fun obj_set :: "string \<Rightarrow> pval \<Rightarrow> params \<Rightarrow> params" where
  "obj_set k v [] = [(k, v)]"
| "obj_set k v (p # ps) = (if fst p = k then (k, v) # ps else p # obj_set k v ps)"

definition spread :: "params \<Rightarrow> params \<Rightarrow> params" where
  "spread base extra = foldl (\<lambda>ob kv. obj_set (fst kv) (snd kv) ob) base extra"

subsection \<open>Calls of the collaborators, logged\<close>

definition s3client_upload ::
  "'w platform \<Rightarrow> params \<Rightarrow> 'w state \<Rightarrow> (error + unit) \<times> 'w state" where
  "s3client_upload P ps s =
     (case s3_upload P ps (world s) of
        (r, w) \<Rightarrow> (r, s\<lparr>world := w, calls := calls s @ [S3Upload ps]\<rparr>))"

definition s3client_listObjectsV2 ::
  "'w platform \<Rightarrow> string \<Rightarrow> string \<Rightarrow> 'w state \<Rightarrow> (error + s3object list) \<times> 'w state" where
  "s3client_listObjectsV2 P b prefix s =
     (case s3_listObjectsV2 P b prefix (world s) of
        (r, w) \<Rightarrow> (r, s\<lparr>world := w, calls := calls s @ [S3ListObjectsV2 b prefix]\<rparr>))"

definition s3client_deleteObjects ::
  "'w platform \<Rightarrow> string \<Rightarrow> string list \<Rightarrow> 'w state \<Rightarrow> (error + unit) \<times> 'w state" where
  "s3client_deleteObjects P b ks s =
     (case s3_deleteObjects P b ks (world s) of
        (r, w) \<Rightarrow> (r, s\<lparr>world := w, calls := calls s @ [S3DeleteObjects b ks]\<rparr>))"

definition s3client_getObject ::
  "'w platform \<Rightarrow> string \<Rightarrow> string \<Rightarrow> 'w state
     \<Rightarrow> (error + string list \<times> error option) \<times> 'w state" where
  "s3client_getObject P b k s =
     (case s3_getObject P b k (world s) of
        (r, w) \<Rightarrow> (r, s\<lparr>world := w, calls := calls s @ [S3GetObject b k]\<rparr>))"

definition axios_request ::
  "'w platform \<Rightarrow> http_request \<Rightarrow> 'w state \<Rightarrow> (error + http_response) \<times> 'w state" where
  "axios_request P req s =
     (case axios P req (world s) of
        (r, w) \<Rightarrow> (r, s\<lparr>world := w, calls := calls s @ [AxiosRequest req]\<rparr>))"

definition mkdir :: "'w platform \<Rightarrow> string \<Rightarrow> 'w state \<Rightarrow> (error + unit) \<times> 'w state" where
  "mkdir P dir s =
     (case fs_mkdir P dir (world s) of
        (r, w) \<Rightarrow> (r, s\<lparr>world := w, calls := calls s @ [FsMkdir dir]\<rparr>))"

subsection \<open>Local files\<close>

text \<open>\<open>fs.createWriteStream(path)\<close> opens the file with flag \<open>w\<close>: when the platform
  opens it, it is created, or truncated; when it does not (a directory that is missing,
  a path that cannot be written), the files stay as they are and the write stream has
  the error of the opening. \<open>pipe\<close> writes the chunks the read stream delivers.
  \<open>fs.unlinkSync\<close> removes the file and throws when there is none.\<close>

definition createWriteStream ::
  "'w platform \<Rightarrow> string \<Rightarrow> 'w state \<Rightarrow> (error + unit) \<times> 'w state" where
  "createWriteStream P path s =
     (case fs_open P path (world s) of
        (Inl e, w) \<Rightarrow>
          (Inl e, s\<lparr>world := w, calls := calls s @ [FsCreateWriteStream path]\<rparr>)
      | (Inr u, w) \<Rightarrow>
          (Inr (), s\<lparr>world := w, files := (files s)(path \<mapsto> []),
                     calls := calls s @ [FsCreateWriteStream path]\<rparr>))"

definition pipe :: "string list \<Rightarrow> string \<Rightarrow> 'w state \<Rightarrow> 'w state" where
  "pipe chunks path s =
     (case files s path of
        None \<Rightarrow> s
      | Some content \<Rightarrow> s\<lparr>files := (files s)(path \<mapsto> content @ concat chunks)\<rparr>)"

definition unlinkSync :: "string \<Rightarrow> 'w state \<Rightarrow> (error + unit) \<times> 'w state" where
  "unlinkSync path s =
     (case files s path of
        None \<Rightarrow> (Inl (ServiceError ''ENOENT''), s)
      | Some content \<Rightarrow> (Inr (), s\<lparr>files := (files s)(path := None)\<rparr>))"

subsection \<open>sortFilesByDate\<close>

record file_entry =
  url :: string
  lastModified :: int

text \<open>\<open>Array.prototype.sort\<close> with a comparator, as ECMAScript 2019 fixes it: the sort
  is stable, and an element goes before another when the comparator is negative. The
  algorithm is the engine's; this one inserts from the right.\<close>

fun sort_insert :: "('a \<Rightarrow> 'a \<Rightarrow> int) \<Rightarrow> 'a \<Rightarrow> 'a list \<Rightarrow> 'a list" where
  "sort_insert cmp x [] = [x]"
| "sort_insert cmp x (y # ys) =
     (if cmp x y \<le> 0 then x # y # ys else y # sort_insert cmp x ys)"

fun array_sort :: "('a \<Rightarrow> 'a \<Rightarrow> int) \<Rightarrow> 'a list \<Rightarrow> 'a list" where
  "array_sort cmp [] = []"
| "array_sort cmp (x # xs) = sort_insert cmp x (array_sort cmp xs)"

text \<open>The parameter \<open>sortByDate\<close> is a string or undefined; undefined takes the default
  \<open>SortOrder.ASC\<close>.\<close>

definition compareFiles :: "string option \<Rightarrow> file_entry \<Rightarrow> file_entry \<Rightarrow> int" where
  "compareFiles sortByDate a b =
     (if (case sortByDate of None \<Rightarrow> ''ASC'' | Some v \<Rightarrow> v) = ''DESC''
      then lastModified b - lastModified a
      else lastModified a - lastModified b)"

definition sortFilesByDate :: "file_entry list \<Rightarrow> string option \<Rightarrow> file_entry list" where
  "sortFilesByDate filesList sortByDate = array_sort (compareFiles sortByDate) filesList"

subsection \<open>URLs\<close>

definition getURL :: "client \<Rightarrow> string \<Rightarrow> string" where
  "getURL c path = ''https://'' @ bucket c @ ''.'' @ endpoint c @ ''/'' @ path"

definition getCDNURL :: "'w platform \<Rightarrow> client \<Rightarrow> string \<Rightarrow> error + string" where
  "getCDNURL P c path =
     (case url_new P (getURL c path) of
        None \<Rightarrow> Inl (TypeError ''Invalid URL'')
      | Some cdnUrl \<Rightarrow>
          Inr (url_href P
            (if truthy (customCdnHost c)
             then url_set_host P cdnUrl (the (customCdnHost c))
             else url_set_host P cdnUrl ''cdn.digitaloceanspaces'')))"

subsection \<open>getCDNEndpointId\<close>

definition getCDNEndpointId :: "'w platform \<Rightarrow> 'w state \<Rightarrow> (error + string) \<times> 'w state" where
  "getCDNEndpointId P s =
     (if \<not> truthy (digitalOceanAPIToken (self s))
      then (Inl (Error ''No API Token configured''), s)
      else if truthy (cdnEndpointId (self s))
      then (Inr (the (cdnEndpointId (self s))), s)
      else
        (case axios_request P
                \<lparr>req_url = ''https://api.digitalocean.com/v2/cdn/endpoints'',
                 req_method = None,
                 req_authorization = ''Bearer '' @ template (digitalOceanAPIToken (self s)),
                 req_files = None\<rparr> s of
           (Inl e, s1) \<Rightarrow> (Inl e, s1)
         | (Inr cdnEndpointsResponse, s1) \<Rightarrow>
             (case data_endpoints cdnEndpointsResponse of
                None \<Rightarrow> (Inl (TypeError ''Cannot read properties of undefined''), s1)
              | Some cdnEndpoints \<Rightarrow>
                  (case find (\<lambda>e. bucket (self s1) = takeWhile (\<lambda>ch. ch \<noteq> CHR ''.'') (origin e))
                          cdnEndpoints of
                     None \<Rightarrow>
                       (Inl (Error (''No CDN endpoint found for bucket: '' @ bucket (self s1))), s1)
                   | Some currentCdnEndpoint \<Rightarrow>
                       (Inr (endpoint_id currentCdnEndpoint),
                        s1\<lparr>self := (self s1)
                              \<lparr>cdnEndpointId := Some (endpoint_id currentCdnEndpoint)\<rparr>\<rparr>)))))"

subsection \<open>uploadFile\<close>

record upload_options =
  exponentialBackoff :: bool
  purgeCache :: bool
  spacesOptions :: params

text \<open>\<open>backOff\<close> of the package exponential-backoff with its default options: the
  request runs until it succeeds, at most \<open>numOfAttempts\<close> times (at least once), and the
  last error is the one thrown. The delays between the attempts are not modelled.\<close>

fun backOff :: "nat \<Rightarrow> ('s \<Rightarrow> (error + 'a) \<times> 's) \<Rightarrow> 's \<Rightarrow> (error + 'a) \<times> 's" where
  "backOff 0 request s = request s"
| "backOff (Suc 0) request s = request s"
| "backOff (Suc (Suc n)) request s =
     (case request s of
        (Inl e, s1) \<Rightarrow> backOff (Suc n) request s1
      | (Inr v, s1) \<Rightarrow> (Inr v, s1))"

text \<open>The parameter object of \<open>s3client.upload\<close>: the five properties the code sets,
  and over them the options the caller passes through. \<open>mime.lookup\<close> returns a string
  or \<open>false\<close>.\<close>

definition uploadParams ::
  "'w platform \<Rightarrow> client \<Rightarrow> string \<Rightarrow> string \<Rightarrow> string \<Rightarrow> params \<Rightarrow> params" where
  "uploadParams P c uploadFilePath destinationPath permission extra =
     spread
       [(''Bucket'', Str (bucket c)),
        (''Body'', ReadStream uploadFilePath),
        (''Key'', Str destinationPath),
        (''ACL'', Str (if permission = ''public'' then ''public-read'' else permission)),
        (''ContentType'',
           (case mime_lookup P uploadFilePath of None \<Rightarrow> Bool False | Some t \<Rightarrow> Str t))]
       extra"

text \<open>The request of \<open>makeUpload\<close> that purges the cache of the uploaded key.\<close>

definition purgeRequest :: "client \<Rightarrow> string \<Rightarrow> string \<Rightarrow> http_request" where
  "purgeRequest c cdnId destinationPath =
     \<lparr>req_url = ''https://api.digitalocean.com/v2/cdn/endpoints/'' @ cdnId @ ''/cache'',
      req_method = Some ''DELETE'',
      req_authorization = ''Bearer '' @ template (digitalOceanAPIToken c),
      req_files = Some [destinationPath]\<rparr>"

definition makeUpload ::
  "'w platform \<Rightarrow> string \<Rightarrow> string \<Rightarrow> string \<Rightarrow> upload_options \<Rightarrow> 'w state
     \<Rightarrow> (error + string) \<times> 'w state" where
  "makeUpload P uploadFilePath destinationPath permission options s =
     (case s3client_upload P
             (uploadParams P (self s) uploadFilePath destinationPath permission
                (spacesOptions options)) s of
        (Inl e, s1) \<Rightarrow> (Inl e, s1)
      | (Inr u, s1) \<Rightarrow>
          (if purgeCache options
           then
             (case getCDNEndpointId P s1 of
                (Inl e, s2) \<Rightarrow> (Inl e, s2)
              | (Inr cdnId, s2) \<Rightarrow>
                  (case axios_request P (purgeRequest (self s2) cdnId destinationPath) s2 of
                     (Inl e, s3) \<Rightarrow> (Inl e, s3)
                   | (Inr r, s3) \<Rightarrow> (getCDNURL P (self s3) destinationPath, s3)))
           else (getCDNURL P (self s1) destinationPath, s1)))"

definition uploadFile ::
  "'w platform \<Rightarrow> string \<Rightarrow> string \<Rightarrow> string \<Rightarrow> upload_options \<Rightarrow> 'w state
     \<Rightarrow> (error + string) \<times> 'w state" where
  "uploadFile P uploadFilePath destinationPath permission options s =
     (if exponentialBackoff options
      then backOff 10 (makeUpload P uploadFilePath destinationPath permission options) s
      else makeUpload P uploadFilePath destinationPath permission options s)"

subsection \<open>Listing\<close>

record list_options =
  sortByDate :: "string option"
  pathOnly :: bool

definition listPathObjects ::
  "'w platform \<Rightarrow> string \<Rightarrow> 'w state \<Rightarrow> (error + s3object list) \<times> 'w state" where
  "listPathObjects P path s = s3client_listObjectsV2 P (bucket (self s)) path s"

text \<open>\<open>objects.map(...)\<close>: the callback runs on the records in order, and the first
  exception it throws ends the map.\<close>

fun filesList :: "'w platform \<Rightarrow> client \<Rightarrow> bool \<Rightarrow> s3object list \<Rightarrow> error + file_entry list" where
  "filesList P c po [] = Inr []"
| "filesList P c po (ob # obs) =
     (case (if po then Inr (Key ob) else getCDNURL P c (Key ob)) of
        Inl e \<Rightarrow> Inl e
      | Inr u \<Rightarrow>
          (case filesList P c po obs of
             Inl e \<Rightarrow> Inl e
           | Inr fl \<Rightarrow> Inr (\<lparr>url = u, lastModified = LastModified ob\<rparr> # fl)))"

definition listPathFiles ::
  "'w platform \<Rightarrow> string \<Rightarrow> list_options \<Rightarrow> 'w state
     \<Rightarrow> (error + file_entry list) \<times> 'w state" where
  "listPathFiles P path options s =
     (case listPathObjects P path s of
        (Inl e, s1) \<Rightarrow> (Inl e, s1)
      | (Inr objects, s1) \<Rightarrow>
          (case filesList P (self s1) (pathOnly options) objects of
             Inl e \<Rightarrow> (Inl e, s1)
           | Inr fl \<Rightarrow> (Inr (sortFilesByDate fl (sortByDate options)), s1)))"

subsection \<open>Deleting\<close>

definition deleteObjects ::
  "'w platform \<Rightarrow> ('a keyed_scheme) list \<Rightarrow> 'w state \<Rightarrow> (error + unit) \<times> 'w state" where
  "deleteObjects P objects s = s3client_deleteObjects P (bucket (self s)) (map Key objects) s"

definition deletePaths ::
  "'w platform \<Rightarrow> string list \<Rightarrow> 'w state \<Rightarrow> (error + unit) \<times> 'w state" where
  "deletePaths P paths s = deleteObjects P (map (\<lambda>path. \<lparr>Key = path\<rparr>) paths) s"

definition deleteFile ::
  "'w platform \<Rightarrow> string \<Rightarrow> 'w state \<Rightarrow> (error + unit) \<times> 'w state" where
  "deleteFile P path s = deleteObjects P [\<lparr>Key = path\<rparr>] s"

definition deleteFolder ::
  "'w platform \<Rightarrow> string \<Rightarrow> 'w state \<Rightarrow> (error + unit) \<times> 'w state" where
  "deleteFolder P folderPath s =
     (case listPathObjects P folderPath s of
        (Inl e, s1) \<Rightarrow> (Inl e, s1)
      | (Inr objects, s1) \<Rightarrow> deleteObjects P objects s1)"

subsection \<open>downloadFile\<close>

text \<open>
  The promise of \<open>downloadFile\<close>. The write stream is created, the request is made, the
  handler is put on the \<open>error\<close> event of the request (the object \<open>getObject\<close> returns),
  and the read stream of the request is piped into the write stream; neither stream gets
  an \<open>error\<close> listener. What follows:
  \<^item> the request fails before the body arrives: the handler runs \<open>fs.unlinkSync\<close> and
    then \<open>reject(error)\<close>; when \<open>unlinkSync\<close> throws (there is no file, the write stream
    could not open it), the exception leaves the handler and \<open>reject\<close> is not reached;
  \<^item> the read stream delivers its chunks and ends, also when the transfer broke after
    them (the handler of the request is not called then): the write stream finishes
    and the promise resolves with \<open>filePathToSave\<close>, the file holding the chunks;
  \<^item> the write stream could not open the file and the read stream delivers: the
    \<open>error\<close> event of the write stream has no listener, and no \<open>finish\<close> follows.
\<close>

definition downloadFile ::
  "'w platform \<Rightarrow> string \<Rightarrow> string \<Rightarrow> bool \<Rightarrow> 'w state \<Rightarrow> (error + string) \<times> 'w state" where
  "downloadFile P filePathToRead filePathToSave createDirIfNotExists s =
     (case (if createDirIfNotExists then mkdir P (path_dirname P filePathToSave) s
            else (Inr (), s)) of
        (Inl e, s1) \<Rightarrow> (Inl e, s1)
      | (Inr u, s1) \<Rightarrow>
          (case createWriteStream P filePathToSave s1 of
             (opened, s2) \<Rightarrow>
               (case s3client_getObject P (bucket (self s2)) filePathToRead s2 of
                  (Inl error, s3) \<Rightarrow>
                    (case unlinkSync filePathToSave s3 of
                       (Inl e, s4) \<Rightarrow> (Inl (Uncaught e), s4)
                     | (Inr u, s4) \<Rightarrow> (Inl error, s4))
                | (Inr (chunks, failure), s3) \<Rightarrow>
                    (case opened of
                       Inl e \<Rightarrow> (Inl (Uncaught e), s3)
                     | Inr u \<Rightarrow> (Inr filePathToSave, pipe chunks filePathToSave s3)))))"

subsection \<open>A gateway in memory\<close>

text \<open>
  A platform to run the client on: its world is the list of the parameter objects put so
  far. The listing answers \<open>contents\<close>, the CDN API answers the endpoints \<open>eps\<close> to a
  request without a method and an empty body to any other, every \<open>getObject\<close> request
  gets its response and its read stream is \<open>stream\<close>, every file can be opened, and
  with \<open>strict\<close> a batch delete without keys is refused, as a request that does not
  validate. Its URLs are the plain ones, \<open>https://host/rest\<close>; its host setter, as the
  one of the URL class, leaves the URL as it is when the new value is empty or has a
  space in it, which no host has.
\<close>

definition mem_url_new :: "string \<Rightarrow> url option" where
  "mem_url_new str =
     (if take 8 str = ''https://'' \<and> takeWhile (\<lambda>ch. ch \<noteq> CHR ''/'') (drop 8 str) \<noteq> []
      then Some \<lparr>url_protocol = ''https:'',
                 url_host = takeWhile (\<lambda>ch. ch \<noteq> CHR ''/'') (drop 8 str),
                 url_pathname = dropWhile (\<lambda>ch. ch \<noteq> CHR ''/'') (drop 8 str),
                 url_search = [], url_hash = []\<rparr>
      else None)"

definition mem_url_href :: "url \<Rightarrow> string" where
  "mem_url_href u = url_protocol u @ ''//'' @ url_host u @ url_pathname u @ url_search u @ url_hash u"

definition mem_url_set_host :: "url \<Rightarrow> string \<Rightarrow> url" where
  "mem_url_set_host u h = (if h = [] \<or> CHR '' '' \<in> set h then u else u\<lparr>url_host := h\<rparr>)"

definition mem_gateway ::
  "cdn_endpoint list \<Rightarrow> s3object list \<Rightarrow> bool \<Rightarrow> string list \<times> error option
     \<Rightarrow> (params list) platform" where
  "mem_gateway eps contents strict stream =
     \<lparr>s3_upload = (\<lambda>ps w. (Inr (), w @ [ps])),
      s3_listObjectsV2 = (\<lambda>b prefix w. (Inr contents, w)),
      s3_deleteObjects = (\<lambda>b ks w.
         if strict \<and> ks = [] then (Inl (ServiceError ''MalformedXML''), w) else (Inr (), w)),
      s3_getObject = (\<lambda>b k w. (Inr stream, w)),
      axios = (\<lambda>req w.
         (Inr \<lparr>data_endpoints = (if req_method req = None then Some eps else None)\<rparr>, w)),
      fs_mkdir = (\<lambda>dir w. (Inr (), w)),
      fs_open = (\<lambda>p w. (Inr (), w)),
      path_dirname = (\<lambda>p. rev (drop 1 (dropWhile (\<lambda>ch. ch \<noteq> CHR ''/'') (rev p)))),
      mime_lookup = (\<lambda>p. None),
      url_new = mem_url_new,
      url_set_host = mem_url_set_host,
      url_href = mem_url_href\<rparr>"

definition mem_client :: "string option \<Rightarrow> string option \<Rightarrow> string option \<Rightarrow> client" where
  "mem_client token cdnId customHost =
     \<lparr>endpoint = ''nyc3.digitaloceanspaces.com'', bucket = ''media'',
      digitalOceanAPIToken = token, cdnEndpointId = cdnId, customCdnHost = customHost\<rparr>"

definition mem_state :: "client \<Rightarrow> (params list) state" where
  "mem_state c = \<lparr>self = c, world = [], files = Map.empty, calls = []\<rparr>"

subsection \<open>Sample data\<close>

definition sample_objects :: "s3object list" where
  "sample_objects =
     [\<lparr>Key = ''tmp/a.png'', LastModified = 1700000005000, ETag = ''e1'', Size = 10,
       StorageClass = ''STANDARD''\<rparr>,
      \<lparr>Key = ''tmp/b.png'', LastModified = 1700000003000, ETag = ''e2'', Size = 20,
       StorageClass = ''STANDARD''\<rparr>,
      \<lparr>Key = ''tmp/c.png'', LastModified = 1700000005000, ETag = ''e3'', Size = 30,
       StorageClass = ''STANDARD''\<rparr>]"

definition sample_endpoints :: "cdn_endpoint list" where
  "sample_endpoints =
     [\<lparr>endpoint_id = ''19f06b6a'', origin = ''static.nyc3.digitaloceanspaces.com''\<rparr>,
      \<lparr>endpoint_id = ''892071a0'', origin = ''media.nyc3.digitaloceanspaces.com''\<rparr>]"


section \<open>Properties\<close>

subsection \<open>What a logged call leaves behind\<close>

lemma s3client_upload_eq:
  "s3client_upload P ps s =
     (fst (s3_upload P ps (world s)),
      s\<lparr>world := snd (s3_upload P ps (world s)), calls := calls s @ [S3Upload ps]\<rparr>)"
  by (simp add: s3client_upload_def split: prod.splits)

lemma s3client_deleteObjects_eq:
  "s3client_deleteObjects P b ks s =
     (fst (s3_deleteObjects P b ks (world s)),
      s\<lparr>world := snd (s3_deleteObjects P b ks (world s)),
        calls := calls s @ [S3DeleteObjects b ks]\<rparr>)"
  by (simp add: s3client_deleteObjects_def split: prod.splits)

lemma s3client_getObject_eq:
  "s3client_getObject P b k s =
     (fst (s3_getObject P b k (world s)),
      s\<lparr>world := snd (s3_getObject P b k (world s)), calls := calls s @ [S3GetObject b k]\<rparr>)"
  by (simp add: s3client_getObject_def split: prod.splits)

lemma listPathObjects_eq:
  "listPathObjects P path s =
     (fst (s3_listObjectsV2 P (bucket (self s)) path (world s)),
      s\<lparr>world := snd (s3_listObjectsV2 P (bucket (self s)) path (world s)),
        calls := calls s @ [S3ListObjectsV2 (bucket (self s)) path]\<rparr>)"
  by (simp add: listPathObjects_def s3client_listObjectsV2_def split: prod.splits)

lemma axios_request_eq:
  "axios_request P req s =
     (fst (axios P req (world s)),
      s\<lparr>world := snd (axios P req (world s)), calls := calls s @ [AxiosRequest req]\<rparr>)"
  by (simp add: axios_request_def split: prod.splits)

lemma mkdir_eq:
  "mkdir P dir s =
     (fst (fs_mkdir P dir (world s)),
      s\<lparr>world := snd (fs_mkdir P dir (world s)), calls := calls s @ [FsMkdir dir]\<rparr>)"
  by (simp add: mkdir_def split: prod.splits)

subsection \<open>The in-memory gateway, evaluated\<close>

lemma mem_gateway_sel:
  "s3_upload (mem_gateway eps contents strict stream) = (\<lambda>ps w. (Inr (), w @ [ps]))"
  "s3_listObjectsV2 (mem_gateway eps contents strict stream) = (\<lambda>b prefix w. (Inr contents, w))"
  "s3_deleteObjects (mem_gateway eps contents strict stream) =
     (\<lambda>b ks w. if strict \<and> ks = [] then (Inl (ServiceError ''MalformedXML''), w)
                else (Inr (), w))"
  "s3_getObject (mem_gateway eps contents strict stream) = (\<lambda>b k w. (Inr stream, w))"
  "axios (mem_gateway eps contents strict stream) =
     (\<lambda>req w. (Inr \<lparr>data_endpoints = (if req_method req = None then Some eps else None)\<rparr>, w))"
  "fs_mkdir (mem_gateway eps contents strict stream) = (\<lambda>dir w. (Inr (), w))"
  "fs_open (mem_gateway eps contents strict stream) = (\<lambda>p w. (Inr (), w))"
  "path_dirname (mem_gateway eps contents strict stream) =
     (\<lambda>p. rev (drop 1 (dropWhile (\<lambda>ch. ch \<noteq> CHR ''/'') (rev p))))"
  "mime_lookup (mem_gateway eps contents strict stream) = (\<lambda>p. None)"
  "url_new (mem_gateway eps contents strict stream) = mem_url_new"
  "url_set_host (mem_gateway eps contents strict stream) = mem_url_set_host"
  "url_href (mem_gateway eps contents strict stream) = mem_url_href"
  by (simp_all add: mem_gateway_def)

lemma mem_state_sel:
  "self (mem_state c) = c" "world (mem_state c) = []"
  "files (mem_state c) = Map.empty" "calls (mem_state c) = []"
  by (simp_all add: mem_state_def)

lemma mem_client_sel:
  "endpoint (mem_client token cdnId customHost) = ''nyc3.digitaloceanspaces.com''"
  "bucket (mem_client token cdnId customHost) = ''media''"
  "digitalOceanAPIToken (mem_client token cdnId customHost) = token"
  "cdnEndpointId (mem_client token cdnId customHost) = cdnId"
  "customCdnHost (mem_client token cdnId customHost) = customHost"
  by (simp_all add: mem_client_def)

subsection \<open>Deleting\<close>

text \<open>
  Claim C10. \<open>deleteObjects\<close> issues exactly one batch delete: it hands the gateway the
  bucket and the \<open>Key\<close> of every input record, in order, and nothing else of the
  records; its result and the world it leaves are the gateway's for that request, and
  the request is the one call it adds. Two inputs with the same keys give the same
  request and result. \<open>deleteFolder\<close> issues the listing and then the delete of exactly
  the keys listed, \<open>deletePaths\<close> the delete of the paths, and \<open>deleteFile(path)\<close> is
  \<open>deletePaths([path])\<close>.
\<close>

theorem deleteObjects_one_request:
  "deleteObjects P objects s =
     (fst (s3_deleteObjects P (bucket (self s)) (map Key objects) (world s)),
      s\<lparr>world := snd (s3_deleteObjects P (bucket (self s)) (map Key objects) (world s)),
        calls := calls s @ [S3DeleteObjects (bucket (self s)) (map Key objects)]\<rparr>)
   \<and> (map Key objects = map Key objects' \<longrightarrow>
        deleteObjects P objects s = deleteObjects P objects' s)
   \<and> (listPathObjects P folderPath s = (Inr listed, s1) \<longrightarrow>
        deleteFolder P folderPath s =
          (fst (s3_deleteObjects P (bucket (self s)) (map Key listed) (world s1)),
           s1\<lparr>world := snd (s3_deleteObjects P (bucket (self s)) (map Key listed) (world s1)),
              calls := calls s @ [S3ListObjectsV2 (bucket (self s)) folderPath,
                                  S3DeleteObjects (bucket (self s)) (map Key listed)]\<rparr>))
   \<and> deletePaths P paths s =
       (fst (s3_deleteObjects P (bucket (self s)) paths (world s)),
        s\<lparr>world := snd (s3_deleteObjects P (bucket (self s)) paths (world s)),
          calls := calls s @ [S3DeleteObjects (bucket (self s)) paths]\<rparr>)
   \<and> deleteFile P path s = deletePaths P [path] s"
proof (intro conjI impI)
  show "deleteObjects P objects s =
     (fst (s3_deleteObjects P (bucket (self s)) (map Key objects) (world s)),
      s\<lparr>world := snd (s3_deleteObjects P (bucket (self s)) (map Key objects) (world s)),
        calls := calls s @ [S3DeleteObjects (bucket (self s)) (map Key objects)]\<rparr>)"
    by (simp add: deleteObjects_def s3client_deleteObjects_eq)
next
  assume "map Key objects = map Key objects'"
  then show "deleteObjects P objects s = deleteObjects P objects' s"
    by (simp add: deleteObjects_def)
next
  assume l: "listPathObjects P folderPath s = (Inr listed, s1)"
  then have "self s1 = self s"
    and "calls s1 = calls s @ [S3ListObjectsV2 (bucket (self s)) folderPath]"
    by (auto simp: listPathObjects_eq)
  with l show "deleteFolder P folderPath s =
          (fst (s3_deleteObjects P (bucket (self s)) (map Key listed) (world s1)),
           s1\<lparr>world := snd (s3_deleteObjects P (bucket (self s)) (map Key listed) (world s1)),
              calls := calls s @ [S3ListObjectsV2 (bucket (self s)) folderPath,
                                  S3DeleteObjects (bucket (self s)) (map Key listed)]\<rparr>)"
    by (simp add: deleteFolder_def deleteObjects_def s3client_deleteObjects_eq)
next
  show "deletePaths P paths s =
       (fst (s3_deleteObjects P (bucket (self s)) paths (world s)),
        s\<lparr>world := snd (s3_deleteObjects P (bucket (self s)) paths (world s)),
          calls := calls s @ [S3DeleteObjects (bucket (self s)) paths]\<rparr>)"
    by (simp add: deletePaths_def deleteObjects_def s3client_deleteObjects_eq comp_def)
next
  show "deleteFile P path s = deletePaths P [path] s"
    by (simp add: deleteFile_def deletePaths_def)
qed

theorem deleteObjects_one_request_witness:
  "deleteObjects (mem_gateway [] sample_objects True ([], None)) sample_objects
       (mem_state (mem_client None None None))
     = (Inr (), \<lparr>self = mem_client None None None, world = [], files = Map.empty,
                 calls = [S3DeleteObjects ''media''
                            [''tmp/a.png'', ''tmp/b.png'', ''tmp/c.png'']]\<rparr>)
   \<and> deleteObjects (mem_gateway [] sample_objects True ([], None)) ([] :: s3object list)
       (mem_state (mem_client None None None))
     = (Inl (ServiceError ''MalformedXML''),
        \<lparr>self = mem_client None None None, world = [], files = Map.empty,
         calls = [S3DeleteObjects ''media'' []]\<rparr>)
   \<and> map Key sample_objects
       = map Key [\<lparr>Key = ''tmp/a.png''\<rparr>, \<lparr>Key = ''tmp/b.png''\<rparr>, \<lparr>Key = ''tmp/c.png''\<rparr>]
   \<and> deleteObjects (mem_gateway [] sample_objects True ([], None)) sample_objects
            (mem_state (mem_client None None None))
       = deleteObjects (mem_gateway [] sample_objects True ([], None))
            [\<lparr>Key = ''tmp/a.png''\<rparr>, \<lparr>Key = ''tmp/b.png''\<rparr>, \<lparr>Key = ''tmp/c.png''\<rparr>]
            (mem_state (mem_client None None None))
   \<and> fst (listPathObjects (mem_gateway [] sample_objects True ([], None)) ''tmp/''
            (mem_state (mem_client None None None))) = Inr sample_objects
   \<and> deleteFolder (mem_gateway [] sample_objects True ([], None)) ''tmp/''
            (mem_state (mem_client None None None))
       = (Inr (), \<lparr>self = mem_client None None None, world = [], files = Map.empty,
                   calls = [S3ListObjectsV2 ''media'' ''tmp/'',
                            S3DeleteObjects ''media''
                              [''tmp/a.png'', ''tmp/b.png'', ''tmp/c.png'']]\<rparr>)
   \<and> deleteFile (mem_gateway [] sample_objects True ([], None)) ''tmp/a.png''
            (mem_state (mem_client None None None))
       = (Inr (), \<lparr>self = mem_client None None None, world = [], files = Map.empty,
                   calls = [S3DeleteObjects ''media'' [''tmp/a.png'']]\<rparr>)"
proof -
  let ?P = "mem_gateway [] sample_objects True ([], None)"
  let ?s = "mem_state (mem_client None None None)"
  let ?keyed = "[\<lparr>Key = ''tmp/a.png''\<rparr>, \<lparr>Key = ''tmp/b.png''\<rparr>, \<lparr>Key = ''tmp/c.png''\<rparr>]"
  have keys: "map Key sample_objects = [''tmp/a.png'', ''tmp/b.png'', ''tmp/c.png'']"
    by (simp add: sample_objects_def)
  have l: "listPathObjects ?P ''tmp/'' ?s =
      (Inr sample_objects, snd (listPathObjects ?P ''tmp/'' ?s))"
    by (simp add: listPathObjects_eq mem_gateway_sel)
  have k2: "map Key sample_objects = map Key ?keyed"
    by (simp add: keys)
  note inst = deleteObjects_one_request
      [of ?P sample_objects ?s ?keyed "''tmp/''" sample_objects
          "snd (listPathObjects ?P ''tmp/'' ?s)" "[''tmp/a.png'']" "''tmp/a.png''"]
  have full: "deleteObjects ?P sample_objects ?s =
      (Inr (), \<lparr>self = mem_client None None None, world = [], files = Map.empty,
                 calls = [S3DeleteObjects ''media''
                            [''tmp/a.png'', ''tmp/b.png'', ''tmp/c.png'']]\<rparr>)"
    using inst by (simp add: keys mem_gateway_sel mem_client_sel mem_state_def)
  have same: "deleteObjects ?P sample_objects ?s = deleteObjects ?P ?keyed ?s"
    using inst k2 by blast
  have folder: "deleteFolder ?P ''tmp/'' ?s =
      (Inr (), \<lparr>self = mem_client None None None, world = [], files = Map.empty,
                 calls = [S3ListObjectsV2 ''media'' ''tmp/'',
                          S3DeleteObjects ''media''
                            [''tmp/a.png'', ''tmp/b.png'', ''tmp/c.png'']]\<rparr>)"
  proof -
    from inst l have "deleteFolder ?P ''tmp/'' ?s =
          (fst (s3_deleteObjects ?P (bucket (self ?s)) (map Key sample_objects)
                  (world (snd (listPathObjects ?P ''tmp/'' ?s)))),
           (snd (listPathObjects ?P ''tmp/'' ?s))
             \<lparr>world := snd (s3_deleteObjects ?P (bucket (self ?s)) (map Key sample_objects)
                              (world (snd (listPathObjects ?P ''tmp/'' ?s)))),
              calls := calls ?s @ [S3ListObjectsV2 (bucket (self ?s)) ''tmp/'',
                                  S3DeleteObjects (bucket (self ?s)) (map Key sample_objects)]\<rparr>)"
      by blast
    then show ?thesis
      by (simp add: keys mem_gateway_sel mem_client_sel mem_state_def listPathObjects_eq)
  qed
  have one: "deleteFile ?P ''tmp/a.png'' ?s =
      (Inr (), \<lparr>self = mem_client None None None, world = [], files = Map.empty,
                 calls = [S3DeleteObjects ''media'' [''tmp/a.png'']]\<rparr>)"
  proof -
    from inst have "deleteFile ?P ''tmp/a.png'' ?s = deletePaths ?P [''tmp/a.png''] ?s"
      and "deletePaths ?P [''tmp/a.png''] ?s =
       (fst (s3_deleteObjects ?P (bucket (self ?s)) [''tmp/a.png''] (world ?s)),
        ?s\<lparr>world := snd (s3_deleteObjects ?P (bucket (self ?s)) [''tmp/a.png''] (world ?s)),
          calls := calls ?s @ [S3DeleteObjects (bucket (self ?s)) [''tmp/a.png'']]\<rparr>)"
      by blast+
    then show ?thesis
      by (simp add: mem_gateway_sel mem_client_sel mem_state_def)
  qed
  have none: "deleteObjects ?P ([] :: s3object list) ?s =
      (Inl (ServiceError ''MalformedXML''),
        \<lparr>self = mem_client None None None, world = [], files = Map.empty,
         calls = [S3DeleteObjects ''media'' []]\<rparr>)"
    using deleteObjects_one_request
      [of ?P "[] :: s3object list" ?s ?keyed "''tmp/''" sample_objects
          "snd (listPathObjects ?P ''tmp/'' ?s)" "[''tmp/a.png'']" "''tmp/a.png''"]
    by (simp add: mem_gateway_sel mem_client_sel mem_state_def)
  have lst: "fst (listPathObjects ?P ''tmp/'' ?s) = Inr sample_objects"
    by (simp add: listPathObjects_eq mem_gateway_sel)
  from full none k2 same lst folder one show ?thesis by (intro conjI)
qed

text \<open>
  Claim C5, as the code has it. When the listing of the prefix is empty, \<open>deleteFolder\<close>
  still issues the batch delete, with the empty key set, and its outcome is what the
  gateway answers to that call: it completes without error exactly when the gateway
  accepts a delete without keys. The code has no branch for the empty listing.
\<close>

theorem deleteFolder_empty_listing:
  assumes "fst (listPathObjects P folderPath s) = Inr []"
  shows "calls (snd (deleteFolder P folderPath s)) =
           calls s @ [S3ListObjectsV2 (bucket (self s)) folderPath,
                      S3DeleteObjects (bucket (self s)) []]
       \<and> fst (deleteFolder P folderPath s) =
           fst (s3_deleteObjects P (bucket (self s)) []
                  (world (snd (listPathObjects P folderPath s))))"
  using assms
  by (simp add: deleteFolder_def deleteObjects_def listPathObjects_eq s3client_deleteObjects_eq)

theorem deleteFolder_empty_listing_witness:
  "fst (listPathObjects (mem_gateway [] [] False ([], None)) ''tmp/''
          (mem_state (mem_client None None None))) = Inr []
   \<and> calls (snd (deleteFolder (mem_gateway [] [] False ([], None)) ''tmp/''
          (mem_state (mem_client None None None))))
       = [S3ListObjectsV2 ''media'' ''tmp/'', S3DeleteObjects ''media'' []]
   \<and> fst (deleteFolder (mem_gateway [] [] False ([], None)) ''tmp/''
          (mem_state (mem_client None None None))) = Inr ()"
proof -
  have h: "fst (listPathObjects (mem_gateway [] [] False ([], None)) ''tmp/''
          (mem_state (mem_client None None None))) = Inr []"
    by (simp add: listPathObjects_eq mem_gateway_sel)
  from deleteFolder_empty_listing [OF h] h show ?thesis
    by (simp add: listPathObjects_eq mem_gateway_sel mem_state_sel mem_client_sel)
qed

text \<open>
  Claim C5 as stated fails: a gateway that refuses a batch delete without keys makes
  \<open>deleteFolder\<close> on an empty prefix fail with the gateway's error.
\<close>

theorem deleteFolder_empty_listing_counterexample:
  "fst (listPathObjects (mem_gateway [] [] True ([], None)) ''tmp/''
          (mem_state (mem_client None None None))) = Inr []
   \<and> fst (deleteFolder (mem_gateway [] [] True ([], None)) ''tmp/''
          (mem_state (mem_client None None None))) = Inl (ServiceError ''MalformedXML'')
   \<and> calls (snd (deleteFolder (mem_gateway [] [] True ([], None)) ''tmp/''
          (mem_state (mem_client None None None))))
       = [S3ListObjectsV2 ''media'' ''tmp/'', S3DeleteObjects ''media'' []]"
  by (simp add: deleteFolder_def deleteObjects_def listPathObjects_eq s3client_deleteObjects_eq
        mem_gateway_sel mem_state_sel mem_client_sel)

subsection \<open>The CDN endpoint\<close>

lemma find_Some_holds: "find p xs = Some x \<Longrightarrow> x \<in> set xs \<and> p x"
  by (induction xs) (auto split: if_splits)

lemma find_None_all: "(find p xs = None) = (\<forall>x\<in>set xs. \<not> p x)"
  by (induction xs) auto

text \<open>
  Claim C4. Without an API token \<open>getCDNEndpointId\<close> fails with the configuration
  error \<open>No API Token configured\<close> and issues no request. With a token and no cached
  identifier it issues one request for the endpoint list; when the gateway answers with
  a list, the result is the id of an endpoint of the list whose origin, up to its first
  dot, is the bucket name, and it is the error \<open>No CDN endpoint found for bucket\<close>
  when the list has no such endpoint.
\<close>

theorem getCDNEndpointId_contract:
  "(\<not> truthy (digitalOceanAPIToken (self s)) \<longrightarrow>
      getCDNEndpointId P s = (Inl (Error ''No API Token configured''), s))
   \<and> (truthy (digitalOceanAPIToken (self s)) \<and> \<not> truthy (cdnEndpointId (self s)) \<and>
        fst (axios P \<lparr>req_url = ''https://api.digitalocean.com/v2/cdn/endpoints'',
                 req_method = None,
                 req_authorization = ''Bearer '' @ template (digitalOceanAPIToken (self s)),
                 req_files = None\<rparr> (world s)) = Inr \<lparr>data_endpoints = Some cdnEndpoints\<rparr> \<longrightarrow>
        calls (snd (getCDNEndpointId P s)) =
          calls s @ [AxiosRequest \<lparr>req_url = ''https://api.digitalocean.com/v2/cdn/endpoints'',
                 req_method = None,
                 req_authorization = ''Bearer '' @ template (digitalOceanAPIToken (self s)),
                 req_files = None\<rparr>]
        \<and> (if \<exists>e\<in>set cdnEndpoints.
                  takeWhile (\<lambda>ch. ch \<noteq> CHR ''.'') (origin e) = bucket (self s)
            then \<exists>e\<in>set cdnEndpoints.
                  takeWhile (\<lambda>ch. ch \<noteq> CHR ''.'') (origin e) = bucket (self s) \<and>
                  fst (getCDNEndpointId P s) = Inr (endpoint_id e)
            else fst (getCDNEndpointId P s) =
                  Inl (Error (''No CDN endpoint found for bucket: '' @ bucket (self s)))))"
proof (intro conjI impI)
  assume "\<not> truthy (digitalOceanAPIToken (self s))"
  then show "getCDNEndpointId P s = (Inl (Error ''No API Token configured''), s)"
    by (simp add: getCDNEndpointId_def)
next
  let ?req = "\<lparr>req_url = ''https://api.digitalocean.com/v2/cdn/endpoints'',
                 req_method = None,
                 req_authorization = ''Bearer '' @ template (digitalOceanAPIToken (self s)),
                 req_files = None\<rparr>"
  let ?m = "\<lambda>e. bucket (self s) = takeWhile (\<lambda>ch. ch \<noteq> CHR ''.'') (origin e)"
  assume a: "truthy (digitalOceanAPIToken (self s)) \<and> \<not> truthy (cdnEndpointId (self s)) \<and>
        fst (axios P ?req (world s)) = Inr \<lparr>data_endpoints = Some cdnEndpoints\<rparr>"
  show "calls (snd (getCDNEndpointId P s)) = calls s @ [AxiosRequest ?req]"
    using a by (simp add: getCDNEndpointId_def axios_request_eq split: option.splits)
  show "if \<exists>e\<in>set cdnEndpoints.
                  takeWhile (\<lambda>ch. ch \<noteq> CHR ''.'') (origin e) = bucket (self s)
            then \<exists>e\<in>set cdnEndpoints.
                  takeWhile (\<lambda>ch. ch \<noteq> CHR ''.'') (origin e) = bucket (self s) \<and>
                  fst (getCDNEndpointId P s) = Inr (endpoint_id e)
            else fst (getCDNEndpointId P s) =
                  Inl (Error (''No CDN endpoint found for bucket: '' @ bucket (self s)))"
  proof (cases "find ?m cdnEndpoints")
    case None
    then have "\<not> (\<exists>e\<in>set cdnEndpoints.
                  takeWhile (\<lambda>ch. ch \<noteq> CHR ''.'') (origin e) = bucket (self s))"
      by (auto simp: find_None_all)
    moreover from None a have "fst (getCDNEndpointId P s) =
                  Inl (Error (''No CDN endpoint found for bucket: '' @ bucket (self s)))"
      by (simp add: getCDNEndpointId_def axios_request_eq)
    ultimately show ?thesis by simp
  next
    case (Some e)
    from find_Some_holds [OF Some] have e: "e \<in> set cdnEndpoints"
      "takeWhile (\<lambda>ch. ch \<noteq> CHR ''.'') (origin e) = bucket (self s)" by auto
    from Some a have "fst (getCDNEndpointId P s) = Inr (endpoint_id e)"
      by (simp add: getCDNEndpointId_def axios_request_eq)
    with e show ?thesis by auto
  qed
qed

theorem getCDNEndpointId_contract_witness:
  "\<not> truthy (digitalOceanAPIToken (self (mem_state (mem_client None None None))))
   \<and> getCDNEndpointId (mem_gateway sample_endpoints [] False ([], None))
        (mem_state (mem_client None None None))
       = (Inl (Error ''No API Token configured''), mem_state (mem_client None None None))
   \<and> truthy (digitalOceanAPIToken (self (mem_state (mem_client (Some ''dop_v1'') None None))))
   \<and> \<not> truthy (cdnEndpointId (self (mem_state (mem_client (Some ''dop_v1'') None None))))
   \<and> fst (axios (mem_gateway sample_endpoints [] False ([], None))
        \<lparr>req_url = ''https://api.digitalocean.com/v2/cdn/endpoints'', req_method = None,
         req_authorization = ''Bearer dop_v1'', req_files = None\<rparr> [])
       = Inr \<lparr>data_endpoints = Some sample_endpoints\<rparr>
   \<and> fst (getCDNEndpointId (mem_gateway sample_endpoints [] False ([], None))
        (mem_state (mem_client (Some ''dop_v1'') None None))) = Inr ''892071a0''
   \<and> calls (snd (getCDNEndpointId (mem_gateway sample_endpoints [] False ([], None))
        (mem_state (mem_client (Some ''dop_v1'') None None))))
       = [AxiosRequest \<lparr>req_url = ''https://api.digitalocean.com/v2/cdn/endpoints'',
            req_method = None, req_authorization = ''Bearer dop_v1'', req_files = None\<rparr>]"
proof -
  have tok: "truthy (Some ''dop_v1'')" "\<not> truthy None"
    by (simp_all add: truthy_def)
  have found: "fst (getCDNEndpointId (mem_gateway sample_endpoints [] False ([], None))
        (mem_state (mem_client (Some ''dop_v1'') None None))) = Inr ''892071a0''"
    by (simp add: getCDNEndpointId_def axios_request_eq mem_gateway_sel mem_state_sel
          mem_client_sel tok template_def sample_endpoints_def)
  from getCDNEndpointId_contract
         [of "mem_state (mem_client None None None)"
             "mem_gateway sample_endpoints [] False ([], None)" sample_endpoints]
       getCDNEndpointId_contract
         [of "mem_state (mem_client (Some ''dop_v1'') None None)"
             "mem_gateway sample_endpoints [] False ([], None)" sample_endpoints]
       found
  show ?thesis
    by (simp add: mem_gateway_sel mem_state_sel mem_client_sel tok template_def)
qed

lemma getCDNEndpointId_success:
  assumes "getCDNEndpointId P s = (Inr i, s1)"
  shows "truthy (digitalOceanAPIToken (self s1)) \<and> cdnEndpointId (self s1) = Some i \<and>
         (s1 = s \<or>
          calls s1 = calls s @
            [AxiosRequest \<lparr>req_url = ''https://api.digitalocean.com/v2/cdn/endpoints'',
                 req_method = None,
                 req_authorization = ''Bearer '' @ template (digitalOceanAPIToken (self s)),
                 req_files = None\<rparr>])"
  using assms
  by (auto simp: getCDNEndpointId_def axios_request_eq truthy_def
           split: if_splits option.splits sum.splits prod.splits)

lemma getCDNEndpointId_failure:
  assumes "truthy (digitalOceanAPIToken (self s))"
    and "getCDNEndpointId P s = (Inl e, s1)"
  shows "self s1 = self s \<and> \<not> truthy (cdnEndpointId (self s)) \<and>
         calls s1 = calls s @
            [AxiosRequest \<lparr>req_url = ''https://api.digitalocean.com/v2/cdn/endpoints'',
                 req_method = None,
                 req_authorization = ''Bearer '' @ template (digitalOceanAPIToken (self s)),
                 req_files = None\<rparr>]"
  using assms
  by (auto simp: getCDNEndpointId_def axios_request_eq
           split: if_splits option.splits sum.splits prod.splits)

lemma getCDNEndpointId_lists:
  assumes "truthy (digitalOceanAPIToken (self s))" and "\<not> truthy (cdnEndpointId (self s))"
  shows "calls (snd (getCDNEndpointId P s)) = calls s @
            [AxiosRequest \<lparr>req_url = ''https://api.digitalocean.com/v2/cdn/endpoints'',
                 req_method = None,
                 req_authorization = ''Bearer '' @ template (digitalOceanAPIToken (self s)),
                 req_files = None\<rparr>]"
  using assms
  by (auto simp: getCDNEndpointId_def axios_request_eq
           split: if_splits option.splits sum.splits prod.splits)

text \<open>
  Claim C3, as the code has it. The identifier is cached when a call returns one, not
  when a call fails. For a client with an API token: when the first call returns a
  non-empty identifier, the second call returns the same identifier and leaves the state
  as it is, issuing no request; the first call has issued the one listing request, or
  none when the identifier was cached already. When the first call fails, whatever the
  error (no endpoint of the bucket, an error of the gateway, an answer without a list),
  it has issued a listing request and left the client as it was, and the second call
  issues a listing request again: two requests over the two calls.
\<close>

theorem getCDNEndpointId_memoized:
  assumes "truthy (digitalOceanAPIToken (self s))"
  shows "(getCDNEndpointId P s = (Inr i, s') \<and> i \<noteq> [] \<longrightarrow>
            getCDNEndpointId P s' = (Inr i, s')
          \<and> (calls s' = calls s \<or>
             calls s' = calls s @
               [AxiosRequest \<lparr>req_url = ''https://api.digitalocean.com/v2/cdn/endpoints'',
                  req_method = None,
                  req_authorization = ''Bearer '' @ template (digitalOceanAPIToken (self s)),
                  req_files = None\<rparr>]))
       \<and> (getCDNEndpointId P s = (Inl e, s') \<longrightarrow>
            self s' = self s
          \<and> calls s' = calls s @
               [AxiosRequest \<lparr>req_url = ''https://api.digitalocean.com/v2/cdn/endpoints'',
                  req_method = None,
                  req_authorization = ''Bearer '' @ template (digitalOceanAPIToken (self s)),
                  req_files = None\<rparr>]
          \<and> calls (snd (getCDNEndpointId P s')) = calls s @
               [AxiosRequest \<lparr>req_url = ''https://api.digitalocean.com/v2/cdn/endpoints'',
                  req_method = None,
                  req_authorization = ''Bearer '' @ template (digitalOceanAPIToken (self s)),
                  req_files = None\<rparr>,
                AxiosRequest \<lparr>req_url = ''https://api.digitalocean.com/v2/cdn/endpoints'',
                  req_method = None,
                  req_authorization = ''Bearer '' @ template (digitalOceanAPIToken (self s)),
                  req_files = None\<rparr>])"
proof (intro conjI impI)
  let ?req = "AxiosRequest \<lparr>req_url = ''https://api.digitalocean.com/v2/cdn/endpoints'',
                  req_method = None,
                  req_authorization = ''Bearer '' @ template (digitalOceanAPIToken (self s)),
                  req_files = None\<rparr>"
  {
    assume a: "getCDNEndpointId P s = (Inr i, s') \<and> i \<noteq> []"
    from getCDNEndpointId_success [of P s i s'] a
    have t: "truthy (digitalOceanAPIToken (self s'))" and c: "cdnEndpointId (self s') = Some i"
      and l: "s' = s \<or> calls s' = calls s @ [?req]"
      by auto
    from t c a show "getCDNEndpointId P s' = (Inr i, s')"
      by (simp add: getCDNEndpointId_def truthy_def)
    from l show "calls s' = calls s \<or> calls s' = calls s @ [?req]"
      by auto
  }
  {
    assume f: "getCDNEndpointId P s = (Inl e, s')"
    from getCDNEndpointId_failure [OF assms f]
    have same: "self s' = self s" and nc: "\<not> truthy (cdnEndpointId (self s))"
      and c1: "calls s' = calls s @ [?req]" by auto
    show "self s' = self s" by (rule same)
    show "calls s' = calls s @ [?req]" by (rule c1)
    from assms nc same have "calls (snd (getCDNEndpointId P s')) = calls s' @ [?req]"
      using getCDNEndpointId_lists [of s' P] by simp
    with c1 show "calls (snd (getCDNEndpointId P s')) = calls s @ [?req, ?req]" by simp
  }
qed

theorem getCDNEndpointId_memoized_witness:
  "truthy (digitalOceanAPIToken (self (mem_state (mem_client (Some ''dop_v1'') None None))))
   \<and> fst (getCDNEndpointId (mem_gateway sample_endpoints [] False ([], None))
        (mem_state (mem_client (Some ''dop_v1'') None None))) = Inr ''892071a0''
   \<and> fst (getCDNEndpointId (mem_gateway sample_endpoints [] False ([], None))
        (snd (getCDNEndpointId (mem_gateway sample_endpoints [] False ([], None))
           (mem_state (mem_client (Some ''dop_v1'') None None))))) = Inr ''892071a0''
   \<and> calls (snd (getCDNEndpointId (mem_gateway sample_endpoints [] False ([], None))
        (snd (getCDNEndpointId (mem_gateway sample_endpoints [] False ([], None))
           (mem_state (mem_client (Some ''dop_v1'') None None))))))
       = [AxiosRequest \<lparr>req_url = ''https://api.digitalocean.com/v2/cdn/endpoints'',
            req_method = None, req_authorization = ''Bearer dop_v1'', req_files = None\<rparr>]
   \<and> fst (getCDNEndpointId (mem_gateway [] [] False ([], None))
        (mem_state (mem_client (Some ''dop_v1'') None None)))
       = Inl (Error ''No CDN endpoint found for bucket: media'')
   \<and> self (snd (getCDNEndpointId (mem_gateway [] [] False ([], None))
        (mem_state (mem_client (Some ''dop_v1'') None None))))
       = mem_client (Some ''dop_v1'') None None
   \<and> calls (snd (getCDNEndpointId (mem_gateway [] [] False ([], None))
        (snd (getCDNEndpointId (mem_gateway [] [] False ([], None))
           (mem_state (mem_client (Some ''dop_v1'') None None))))))
       = [AxiosRequest \<lparr>req_url = ''https://api.digitalocean.com/v2/cdn/endpoints'',
            req_method = None, req_authorization = ''Bearer dop_v1'', req_files = None\<rparr>,
          AxiosRequest \<lparr>req_url = ''https://api.digitalocean.com/v2/cdn/endpoints'',
            req_method = None, req_authorization = ''Bearer dop_v1'', req_files = None\<rparr>]"
proof -
  let ?P = "mem_gateway sample_endpoints [] False ([], None)"
  let ?Q = "mem_gateway [] [] False ([], None)"
  let ?s = "mem_state (mem_client (Some ''dop_v1'') None None)"
  let ?req = "AxiosRequest \<lparr>req_url = ''https://api.digitalocean.com/v2/cdn/endpoints'',
            req_method = None, req_authorization = ''Bearer dop_v1'', req_files = None\<rparr>"
  have tok: "truthy (digitalOceanAPIToken (self ?s))"
    by (simp add: truthy_def mem_state_sel mem_client_sel)
  have tmpl: "''Bearer '' @ template (digitalOceanAPIToken (self ?s)) = ''Bearer dop_v1''"
    by (simp add: template_def mem_state_sel mem_client_sel)
  have r: "fst (getCDNEndpointId ?P ?s) = Inr ''892071a0''"
    and c: "calls (snd (getCDNEndpointId ?P ?s)) = [?req]"
    by (simp_all add: getCDNEndpointId_def axios_request_eq mem_gateway_sel mem_state_sel
          mem_client_sel truthy_def template_def sample_endpoints_def)
  from r have first: "getCDNEndpointId ?P ?s = (Inr ''892071a0'', snd (getCDNEndpointId ?P ?s))"
    by (metis prod.collapse)
  have ne: "''892071a0'' \<noteq> []" by simp
  have f: "fst (getCDNEndpointId ?Q ?s) = Inl (Error ''No CDN endpoint found for bucket: media'')"
    by (simp add: getCDNEndpointId_def axios_request_eq mem_gateway_sel mem_state_sel
          mem_client_sel truthy_def template_def)
  then have failed: "getCDNEndpointId ?Q ?s =
      (Inl (Error ''No CDN endpoint found for bucket: media''), snd (getCDNEndpointId ?Q ?s))"
    by (metis prod.collapse)
  from getCDNEndpointId_memoized
         [where s = ?s and P = ?P and i = "''892071a0''" and s' = "snd (getCDNEndpointId ?P ?s)",
          OF tok]
       first ne
  have again: "getCDNEndpointId ?P (snd (getCDNEndpointId ?P ?s))
                 = (Inr ''892071a0'', snd (getCDNEndpointId ?P ?s))"
    by blast
  from getCDNEndpointId_memoized
         [where s = ?s and P = ?Q and e = "Error ''No CDN endpoint found for bucket: media''"
            and s' = "snd (getCDNEndpointId ?Q ?s)", OF tok]
       failed
  have same: "self (snd (getCDNEndpointId ?Q ?s)) = self ?s"
    and twice: "calls (snd (getCDNEndpointId ?Q (snd (getCDNEndpointId ?Q ?s))))
                  = calls ?s @ [?req, ?req]"
    unfolding tmpl by blast+
  from tok r again c f same twice show ?thesis
    by (simp add: mem_state_sel)
qed

text \<open>
  Claim C3 as stated fails where the lookup fails: with a token and a gateway whose
  endpoint list has no endpoint of the bucket, both calls fail and each of them issues
  a listing request.
\<close>

theorem getCDNEndpointId_memoized_counterexample:
  "truthy (digitalOceanAPIToken (self (mem_state (mem_client (Some ''dop_v1'') None None))))
   \<and> fst (getCDNEndpointId (mem_gateway [] [] False ([], None))
        (mem_state (mem_client (Some ''dop_v1'') None None)))
       = Inl (Error ''No CDN endpoint found for bucket: media'')
   \<and> fst (getCDNEndpointId (mem_gateway [] [] False ([], None))
        (snd (getCDNEndpointId (mem_gateway [] [] False ([], None))
           (mem_state (mem_client (Some ''dop_v1'') None None)))))
       = Inl (Error ''No CDN endpoint found for bucket: media'')
   \<and> calls (snd (getCDNEndpointId (mem_gateway [] [] False ([], None))
        (snd (getCDNEndpointId (mem_gateway [] [] False ([], None))
           (mem_state (mem_client (Some ''dop_v1'') None None))))))
       = [AxiosRequest \<lparr>req_url = ''https://api.digitalocean.com/v2/cdn/endpoints'',
            req_method = None, req_authorization = ''Bearer dop_v1'', req_files = None\<rparr>,
          AxiosRequest \<lparr>req_url = ''https://api.digitalocean.com/v2/cdn/endpoints'',
            req_method = None, req_authorization = ''Bearer dop_v1'', req_files = None\<rparr>]"
  by (simp add: getCDNEndpointId_def axios_request_eq mem_gateway_sel mem_state_sel
        mem_client_sel truthy_def template_def)

subsection \<open>Uploading\<close>

lemma makeUpload_no_purge:
  assumes "\<not> purgeCache options"
  shows "snd (makeUpload P up dest perm options s) =
           s\<lparr>world := snd (s3_upload P
                 (uploadParams P (self s) up dest perm (spacesOptions options)) (world s)),
             calls := calls s @
               [S3Upload (uploadParams P (self s) up dest perm (spacesOptions options))]\<rparr>"
  using assms
  by (simp add: makeUpload_def s3client_upload_eq split: sum.splits)

lemma backOff_Suc_calls:
  assumes step: "\<And>s. snd (request s) = s\<lparr>world := W s, calls := calls s @ [c (self s)]\<rparr>"
  shows "\<exists>w k. 1 \<le> k \<and> k \<le> Suc n \<and>
           snd (backOff (Suc n) request s) =
             s\<lparr>world := w, calls := calls s @ replicate k (c (self s))\<rparr>"
proof (induction n arbitrary: s)
  case 0
  show ?case
    by (intro exI [of _ "W s"] exI [of _ 1]) (simp add: step)
next
  case (Suc n)
  show ?case
  proof (cases "request s")
    case (Pair r s1)
    from Pair step [of s]
    have s1: "s1 = s\<lparr>world := W s, calls := calls s @ [c (self s)]\<rparr>" by simp
    show ?thesis
    proof (cases r)
      case (Inr v)
      with Pair s1 show ?thesis
        by (intro exI [of _ "W s"] exI [of _ 1]) simp
    next
      case (Inl e)
      from Suc.IH [of s1]
      obtain w k where k: "1 \<le> k" "k \<le> Suc n"
        "snd (backOff (Suc n) request s1) =
           s1\<lparr>world := w, calls := calls s1 @ replicate k (c (self s1))\<rparr>"
        by blast
      have "snd (backOff (Suc (Suc n)) request s) =
              s\<lparr>world := w, calls := calls s @ replicate (Suc k) (c (self s))\<rparr>"
        using Pair Inl k(3) by (simp add: s1)
      with k(1,2) show ?thesis
        by (intro exI [of _ w] exI [of _ "Suc k"]) simp
    qed
  qed
qed

text \<open>
  Claim C8. With \<open>purgeCache\<close> false (or absent), whatever the token, the calls that
  \<open>uploadFile\<close> issues are put-object calls only, one without backoff and between one
  and ten with it: no request goes to the CDN API.
\<close>

theorem uploadFile_without_purge:
  assumes "\<not> purgeCache options"
  shows "(\<exists>k. 1 \<le> k \<and> k \<le> 10 \<and>
           calls (snd (uploadFile P up dest perm options s)) =
             calls s @ replicate k
               (S3Upload (uploadParams P (self s) up dest perm (spacesOptions options))))
       \<and> (\<forall>req. AxiosRequest req \<notin>
             set (drop (length (calls s)) (calls (snd (uploadFile P up dest perm options s)))))"
proof -
  let ?c = "S3Upload (uploadParams P (self s) up dest perm (spacesOptions options))"
  have ex: "\<exists>k. 1 \<le> k \<and> k \<le> 10 \<and>
           calls (snd (uploadFile P up dest perm options s)) = calls s @ replicate k ?c"
  proof (cases "exponentialBackoff options")
    case False
    with makeUpload_no_purge [OF assms, of P up dest perm s] show ?thesis
      by (intro exI [of _ 1]) (simp add: uploadFile_def)
  next
    case True
    have ten: "(10::nat) = Suc 9" by simp
    have "\<exists>w k. 1 \<le> k \<and> k \<le> Suc 9 \<and>
           snd (backOff (Suc 9) (makeUpload P up dest perm options) s) =
             s\<lparr>world := w, calls := calls s @ replicate k ?c\<rparr>"
      by (rule backOff_Suc_calls
            [where c = "\<lambda>c. S3Upload (uploadParams P c up dest perm (spacesOptions options))"])
         (rule makeUpload_no_purge [OF assms])
    then obtain w k where "1 \<le> k" "k \<le> 10"
      "snd (backOff 10 (makeUpload P up dest perm options) s) =
             s\<lparr>world := w, calls := calls s @ replicate k ?c\<rparr>"
      unfolding ten by auto
    with True show ?thesis
      by (intro exI [of _ k]) (simp add: uploadFile_def)
  qed
  then obtain k where
    k: "calls (snd (uploadFile P up dest perm options s)) = calls s @ replicate k ?c"
    by blast
  have "\<forall>req. AxiosRequest req \<notin>
          set (drop (length (calls s)) (calls (snd (uploadFile P up dest perm options s))))"
    by (auto simp: k)
  with ex show ?thesis by blast
qed

theorem uploadFile_without_purge_witness:
  "\<not> purgeCache \<lparr>exponentialBackoff = False, purgeCache = False, spacesOptions = []\<rparr>
   \<and> calls (snd (uploadFile (mem_gateway sample_endpoints [] False ([], None))
        ''/tmp/a.png'' ''img/a.png'' ''public''
        \<lparr>exponentialBackoff = False, purgeCache = False, spacesOptions = []\<rparr>
        (mem_state (mem_client (Some ''dop_v1'') None None))))
       = [S3Upload [(''Bucket'', Str ''media''), (''Body'', ReadStream ''/tmp/a.png''),
            (''Key'', Str ''img/a.png''), (''ACL'', Str ''public-read''),
            (''ContentType'', Bool False)]]
   \<and> fst (uploadFile (mem_gateway sample_endpoints [] False ([], None))
        ''/tmp/a.png'' ''img/a.png'' ''public''
        \<lparr>exponentialBackoff = False, purgeCache = False, spacesOptions = []\<rparr>
        (mem_state (mem_client (Some ''dop_v1'') None None)))
       = Inr ''https://cdn.digitaloceanspaces/img/a.png''"
proof -
  have h: "\<not> purgeCache \<lparr>exponentialBackoff = False, purgeCache = False, spacesOptions = []\<rparr>"
    by simp
  have "calls (snd (uploadFile (mem_gateway sample_endpoints [] False ([], None))
        ''/tmp/a.png'' ''img/a.png'' ''public''
        \<lparr>exponentialBackoff = False, purgeCache = False, spacesOptions = []\<rparr>
        (mem_state (mem_client (Some ''dop_v1'') None None))))
       = [S3Upload [(''Bucket'', Str ''media''), (''Body'', ReadStream ''/tmp/a.png''),
            (''Key'', Str ''img/a.png''), (''ACL'', Str ''public-read''),
            (''ContentType'', Bool False)]]"
    and "fst (uploadFile (mem_gateway sample_endpoints [] False ([], None))
        ''/tmp/a.png'' ''img/a.png'' ''public''
        \<lparr>exponentialBackoff = False, purgeCache = False, spacesOptions = []\<rparr>
        (mem_state (mem_client (Some ''dop_v1'') None None)))
       = Inr ''https://cdn.digitaloceanspaces/img/a.png''"
    by (simp_all add: uploadFile_def makeUpload_def s3client_upload_eq uploadParams_def
          spread_def getCDNURL_def getURL_def truthy_def mem_url_new_def mem_url_href_def mem_url_set_host_def
          mem_gateway_sel mem_state_sel mem_client_sel)
  with uploadFile_without_purge [OF h] h show ?thesis by simp
qed

lemma makeUpload_no_token:
  assumes "\<not> truthy (digitalOceanAPIToken (self s))" and "purgeCache options"
  shows "makeUpload P up dest perm options s =
           (Inl (case fst (s3_upload P
                   (uploadParams P (self s) up dest perm (spacesOptions options)) (world s)) of
                   Inl e \<Rightarrow> e
                 | Inr u \<Rightarrow> Error ''No API Token configured''),
            s\<lparr>world := snd (s3_upload P
                  (uploadParams P (self s) up dest perm (spacesOptions options)) (world s)),
              calls := calls s @
                [S3Upload (uploadParams P (self s) up dest perm (spacesOptions options))]\<rparr>)"
  using assms
  by (simp add: makeUpload_def s3client_upload_eq getCDNEndpointId_def split: sum.splits)

lemma backOff_never_succeeds:
  assumes "\<And>k. k < Suc n \<Longrightarrow> request ((g ^^ k) s) = (Inl (err ((g ^^ k) s)), g ((g ^^ k) s))"
  shows "backOff (Suc n) request s = (Inl (err ((g ^^ n) s)), (g ^^ Suc n) s)"
  using assms
proof (induction n arbitrary: s)
  case 0
  from "0" [of 0] show ?case by simp
next
  case (Suc n)
  from Suc.prems [of 0] have first: "request s = (Inl (err s), g s)" by simp
  have "backOff (Suc n) request (g s) = (Inl (err ((g ^^ n) (g s))), (g ^^ Suc n) (g s))"
  proof (rule Suc.IH)
    fix k assume "k < Suc n"
    then have "Suc k < Suc (Suc n)" by simp
    from Suc.prems [OF this]
    show "request ((g ^^ k) (g s)) = (Inl (err ((g ^^ k) (g s))), g ((g ^^ k) (g s)))"
      by (simp add: funpow_swap1)
  qed
  with first show ?case by (simp add: funpow_swap1)
qed

lemma put_steps:
  "((\<lambda>s. s\<lparr>world := f (world s), calls := calls s @ [c]\<rparr>) ^^ k) s =
     s\<lparr>world := (f ^^ k) (world s), calls := calls s @ replicate k c\<rparr>"
proof (induction k)
  case 0
  show ?case by simp
next
  case (Suc k)
  then show ?case by (simp add: replicate_append_same)
qed

text \<open>
  Claim C1. On a client without an API token, \<open>uploadFile\<close> with \<open>purgeCache\<close> runs
  \<open>n\<close> attempts, one without backoff and ten with it, since no attempt succeeds: each
  issues the put-object call and then fails, with the error of the put-object call or,
  when that call has succeeded, with the configuration error of \<open>getCDNEndpointId\<close>.
  When the put-object call of the last attempt (the only one without backoff) succeeds,
  the upload fails with the configuration error \<open>No API Token configured\<close>; the world
  it leaves is the one the put-object calls have produced, and the calls it has issued
  are these put-object calls and nothing else: no call removes the object again.
\<close>

theorem uploadFile_purge_without_token:
  assumes "\<not> truthy (digitalOceanAPIToken (self s))" and "purgeCache options"
    and "ps = uploadParams P (self s) up dest perm (spacesOptions options)"
    and "n = (if exponentialBackoff options then 10 else 1)"
    and "fst (s3_upload P ps (((\<lambda>w. snd (s3_upload P ps w)) ^^ (n - 1)) (world s))) = Inr ()"
  shows "uploadFile P up dest perm options s =
           (Inl (Error ''No API Token configured''),
            s\<lparr>world := ((\<lambda>w. snd (s3_upload P ps w)) ^^ n) (world s),
              calls := calls s @ replicate n (S3Upload ps)\<rparr>)"
proof -
  let ?g = "\<lambda>s. s\<lparr>world := snd (s3_upload P ps (world s)), calls := calls s @ [S3Upload ps]\<rparr>"
  let ?f = "\<lambda>w. snd (s3_upload P ps w)"
  let ?err = "\<lambda>s. case fst (s3_upload P ps (world s)) of
                      Inl e \<Rightarrow> e | Inr u \<Rightarrow> Error ''No API Token configured''"
  have st: "(?g ^^ k) s =
      s\<lparr>world := (?f ^^ k) (world s), calls := calls s @ replicate k (S3Upload ps)\<rparr>" for k
    by (rule put_steps)
  have step: "makeUpload P up dest perm options ((?g ^^ k) s) =
                (Inl (?err ((?g ^^ k) s)), ?g ((?g ^^ k) s))" for k
  proof -
    have "makeUpload P up dest perm options ((?g ^^ k) s) =
           (Inl (case fst (s3_upload P
                   (uploadParams P (self ((?g ^^ k) s)) up dest perm (spacesOptions options))
                   (world ((?g ^^ k) s))) of
                   Inl e \<Rightarrow> e
                 | Inr u \<Rightarrow> Error ''No API Token configured''),
            ((?g ^^ k) s)\<lparr>world := snd (s3_upload P
                  (uploadParams P (self ((?g ^^ k) s)) up dest perm (spacesOptions options))
                  (world ((?g ^^ k) s))),
              calls := calls ((?g ^^ k) s) @
                [S3Upload (uploadParams P (self ((?g ^^ k) s)) up dest perm
                   (spacesOptions options))]\<rparr>)"
      by (rule makeUpload_no_token) (use assms(1,2) in \<open>simp_all add: st\<close>)
    then show ?thesis by (simp add: st assms(3) [symmetric])
  qed
  have last: "?err ((?g ^^ (n - 1)) s) = Error ''No API Token configured''"
    using assms(5) by (simp add: st)
  show ?thesis
  proof (cases "exponentialBackoff options")
    case False
    with assms(4) have n: "n = 1" by simp
    from step [of 0] last n have "makeUpload P up dest perm options s =
                (Inl (Error ''No API Token configured''), ?g s)" by simp
    with False n show ?thesis by (simp add: uploadFile_def)
  next
    case True
    with assms(4) have n: "n = Suc 9" by simp
    have "backOff (Suc 9) (makeUpload P up dest perm options) s =
            (Inl (?err ((?g ^^ 9) s)), (?g ^^ Suc 9) s)"
      by (rule backOff_never_succeeds) (rule step)
    with last n have "backOff 10 (makeUpload P up dest perm options) s =
            (Inl (Error ''No API Token configured''), (?g ^^ n) s)"
      by simp
    with True show ?thesis by (simp add: uploadFile_def st)
  qed
qed

lemma mem_put_iter:
  "((\<lambda>w. snd (s3_upload (mem_gateway eps contents strict stream) ps w)) ^^ k) w
     = w @ replicate k ps"
  by (induction k) (simp_all add: mem_gateway_sel replicate_append_same)

theorem uploadFile_purge_without_token_witness:
  "\<not> truthy (digitalOceanAPIToken (self (mem_state (mem_client None None None))))
   \<and> fst (s3_upload (mem_gateway sample_endpoints [] False ([], None))
        [(''Bucket'', Str ''media''), (''Body'', ReadStream ''/tmp/a.png''),
         (''Key'', Str ''img/a.png''), (''ACL'', Str ''public-read''),
         (''ContentType'', Bool False)] []) = Inr ()
   \<and> uploadFile (mem_gateway sample_endpoints [] False ([], None))
        ''/tmp/a.png'' ''img/a.png'' ''public''
        \<lparr>exponentialBackoff = False, purgeCache = True, spacesOptions = []\<rparr>
        (mem_state (mem_client None None None))
       = (Inl (Error ''No API Token configured''),
          \<lparr>self = mem_client None None None,
           world = [[(''Bucket'', Str ''media''), (''Body'', ReadStream ''/tmp/a.png''),
                     (''Key'', Str ''img/a.png''), (''ACL'', Str ''public-read''),
                     (''ContentType'', Bool False)]],
           files = Map.empty,
           calls = [S3Upload [(''Bucket'', Str ''media''), (''Body'', ReadStream ''/tmp/a.png''),
                     (''Key'', Str ''img/a.png''), (''ACL'', Str ''public-read''),
                     (''ContentType'', Bool False)]]\<rparr>)
   \<and> uploadFile (mem_gateway sample_endpoints [] False ([], None))
        ''/tmp/a.png'' ''img/a.png'' ''public''
        \<lparr>exponentialBackoff = True, purgeCache = True, spacesOptions = []\<rparr>
        (mem_state (mem_client None None None))
       = (Inl (Error ''No API Token configured''),
          \<lparr>self = mem_client None None None,
           world = replicate 10
                    [(''Bucket'', Str ''media''), (''Body'', ReadStream ''/tmp/a.png''),
                     (''Key'', Str ''img/a.png''), (''ACL'', Str ''public-read''),
                     (''ContentType'', Bool False)],
           files = Map.empty,
           calls = replicate 10
                    (S3Upload [(''Bucket'', Str ''media''), (''Body'', ReadStream ''/tmp/a.png''),
                     (''Key'', Str ''img/a.png''), (''ACL'', Str ''public-read''),
                     (''ContentType'', Bool False)])\<rparr>)"
proof -
  let ?P = "mem_gateway sample_endpoints [] False ([], None)"
  let ?s = "mem_state (mem_client None None None)"
  let ?o = "\<lparr>exponentialBackoff = False, purgeCache = True, spacesOptions = []\<rparr>"
  let ?b = "\<lparr>exponentialBackoff = True, purgeCache = True, spacesOptions = []\<rparr>"
  let ?ps = "[(''Bucket'', Str ''media''), (''Body'', ReadStream ''/tmp/a.png''),
         (''Key'', Str ''img/a.png''), (''ACL'', Str ''public-read''),
         (''ContentType'', Bool False)]"
  have h1: "\<not> truthy (digitalOceanAPIToken (self ?s))"
    by (simp add: truthy_def mem_state_sel mem_client_sel)
  have o2: "purgeCache ?o" and b2: "purgeCache ?b" by simp_all
  have o3: "?ps = uploadParams ?P (self ?s) ''/tmp/a.png'' ''img/a.png'' ''public''
                    (spacesOptions ?o)"
    and b3: "?ps = uploadParams ?P (self ?s) ''/tmp/a.png'' ''img/a.png'' ''public''
                    (spacesOptions ?b)"
    by (simp_all add: uploadParams_def spread_def mem_gateway_sel mem_state_sel mem_client_sel)
  have o4: "(1::nat) = (if exponentialBackoff ?o then 10 else 1)"
    and b4: "(10::nat) = (if exponentialBackoff ?b then 10 else 1)" by simp_all
  have o5: "fst (s3_upload ?P ?ps
              (((\<lambda>w. snd (s3_upload ?P ?ps w)) ^^ (1 - 1)) (world ?s))) = Inr ()"
    and b5: "fst (s3_upload ?P ?ps
              (((\<lambda>w. snd (s3_upload ?P ?ps w)) ^^ (10 - 1)) (world ?s))) = Inr ()"
    by (simp_all add: mem_gateway_sel)
  have once: "uploadFile ?P ''/tmp/a.png'' ''img/a.png'' ''public'' ?o ?s =
      (Inl (Error ''No API Token configured''),
       \<lparr>self = mem_client None None None, world = [?ps], files = Map.empty,
        calls = [S3Upload ?ps]\<rparr>)"
    using uploadFile_purge_without_token [OF h1 o2 o3 o4 o5]
    by (simp add: mem_gateway_sel mem_state_def)
  have retried: "uploadFile ?P ''/tmp/a.png'' ''img/a.png'' ''public'' ?b ?s =
      (Inl (Error ''No API Token configured''),
       \<lparr>self = mem_client None None None, world = replicate 10 ?ps, files = Map.empty,
        calls = replicate 10 (S3Upload ?ps)\<rparr>)"
    using uploadFile_purge_without_token [OF h1 b2 b3 b4 b5]
    by (simp add: mem_put_iter mem_state_def)
  have put: "fst (s3_upload ?P ?ps []) = Inr ()"
    by (simp add: mem_gateway_sel)
  from h1 put once retried show ?thesis by (intro conjI)
qed

subsection \<open>Listing\<close>

lemma mset_sort_insert: "mset (sort_insert cmp x xs) = add_mset x (mset xs)"
  by (induction xs) auto

lemma mset_array_sort: "mset (array_sort cmp xs) = mset xs"
  by (induction xs) (auto simp: mset_sort_insert)

lemma set_sort_insert: "set (sort_insert cmp x xs) = insert x (set xs)"
  by (induction xs) auto

lemma sorted_sort_insert:
  assumes total: "\<And>a b. \<not> cmp a b \<le> 0 \<Longrightarrow> cmp b a \<le> 0"
    and trans: "\<And>a b c. cmp a b \<le> 0 \<Longrightarrow> cmp b c \<le> 0 \<Longrightarrow> cmp a c \<le> 0"
    and "sorted_wrt (\<lambda>a b. cmp a b \<le> 0) xs"
  shows "sorted_wrt (\<lambda>a b. cmp a b \<le> (0::int)) (sort_insert cmp x xs)"
  using assms(3)
proof (induction xs)
  case Nil
  show ?case by simp
next
  case (Cons y ys)
  from Cons.prems have ys: "sorted_wrt (\<lambda>a b. cmp a b \<le> 0) ys"
    and y: "\<forall>z\<in>set ys. cmp y z \<le> 0" by simp_all
  show ?case
  proof (cases "cmp x y \<le> 0")
    case True
    have "\<forall>z\<in>set ys. cmp x z \<le> 0"
    proof
      fix z assume "z \<in> set ys"
      with y have "cmp y z \<le> 0" by simp
      with True show "cmp x z \<le> 0" by (rule trans)
    qed
    with True ys y show ?thesis by simp
  next
    case False
    with total have "cmp y x \<le> 0" by blast
    with y have "\<forall>z\<in>set (sort_insert cmp x ys). cmp y z \<le> 0"
      by (simp add: set_sort_insert)
    with False Cons.IH [OF ys] show ?thesis by simp
  qed
qed

lemma sorted_array_sort:
  assumes "\<And>a b. \<not> cmp a b \<le> 0 \<Longrightarrow> cmp b a \<le> 0"
    and "\<And>a b c. cmp a b \<le> 0 \<Longrightarrow> cmp b c \<le> 0 \<Longrightarrow> cmp a c \<le> 0"
  shows "sorted_wrt (\<lambda>a b. cmp a b \<le> (0::int)) (array_sort cmp xs)"
proof (induction xs)
  case Nil
  show ?case by simp
next
  case (Cons x xs)
  have "sorted_wrt (\<lambda>a b. cmp a b \<le> 0) (sort_insert cmp x (array_sort cmp xs))"
    by (rule sorted_sort_insert [OF assms(1) assms(2) Cons.IH])
  then show ?case by simp
qed

text \<open>An element is inserted before the first one it does not come after: it passes no
  element of its own key.\<close>

lemma stable_sort_insert:
  assumes "\<And>y. key y = key x \<Longrightarrow> cmp x y \<le> 0"
  shows "filter (\<lambda>y. key y = k) (sort_insert cmp x xs) = filter (\<lambda>y. key y = k) (x # xs)"
proof (induction xs)
  case Nil
  show ?case by simp
next
  case (Cons y ys)
  show ?case
  proof (cases "cmp x y \<le> 0")
    case True
    then show ?thesis by simp
  next
    case False
    with assms have "key y \<noteq> key x" by blast
    with False Cons show ?thesis by auto
  qed
qed

lemma stable_array_sort:
  assumes "\<And>x y. key y = key x \<Longrightarrow> cmp x y \<le> (0::int)"
  shows "filter (\<lambda>y. key y = k) (array_sort cmp xs) = filter (\<lambda>y. key y = k) xs"
proof (induction xs)
  case Nil
  show ?case by simp
next
  case (Cons x xs)
  have "filter (\<lambda>y. key y = k) (sort_insert cmp x (array_sort cmp xs))
          = filter (\<lambda>y. key y = k) (x # array_sort cmp xs)"
    by (rule stable_sort_insert) (rule assms)
  with Cons show ?case by simp
qed

lemma compareFiles_le:
  "(compareFiles sb a b \<le> 0) =
     (if sb = Some ''DESC'' then lastModified b \<le> lastModified a
      else lastModified a \<le> lastModified b)"
  by (cases sb) (auto simp: compareFiles_def)

lemma sortFilesByDate_sorted:
  "sorted_wrt (\<lambda>a b. compareFiles sb a b \<le> 0) (sortFilesByDate fl sb)"
  unfolding sortFilesByDate_def
  by (rule sorted_array_sort) (auto simp: compareFiles_le split: if_splits)

lemma sortFilesByDate_stable:
  "filter (\<lambda>f. lastModified f = t) (sortFilesByDate fl sb) = filter (\<lambda>f. lastModified f = t) fl"
  unfolding sortFilesByDate_def
  by (rule stable_array_sort) (simp add: compareFiles_le)

text \<open>A permutation of the entries that is in the order of the comparator and keeps the
  entries of one timestamp in their order is the list \<open>sortFilesByDate\<close> returns: the
  result does not depend on the algorithm of the engine.\<close>

lemma sortFilesByDate_unique:
  assumes "mset ys = mset fl"
    and "\<And>t. filter (\<lambda>f. lastModified f = t) ys = filter (\<lambda>f. lastModified f = t) fl"
    and "sorted_wrt (\<lambda>a b. compareFiles sb a b \<le> 0) ys"
  shows "ys = sortFilesByDate fl sb"
proof -
  define key :: "file_entry \<Rightarrow> int" where
    "key = (\<lambda>f. if sb = Some ''DESC'' then - lastModified f else lastModified f)"
  have same: "(key k = key x) = (lastModified x = lastModified k)" for k x
    by (auto simp: key_def)
  have le: "(compareFiles sb a b \<le> 0) = (key a \<le> key b)" for a b
    by (simp add: compareFiles_le key_def)
  have "sort_key key fl = ys"
  proof (rule properties_for_sort_key)
    show "mset ys = mset fl" by (rule assms(1))
    show "filter (\<lambda>x. key k = key x) ys = filter (\<lambda>x. key k = key x) fl" for k
      by (simp add: same assms(2))
    show "sorted (map key ys)"
      using assms(3) by (simp add: le sorted_map)
  qed
  moreover have "sort_key key fl = sortFilesByDate fl sb"
  proof (rule properties_for_sort_key)
    show "mset (sortFilesByDate fl sb) = mset fl"
      by (simp add: sortFilesByDate_def mset_array_sort)
    show "filter (\<lambda>x. key k = key x) (sortFilesByDate fl sb) = filter (\<lambda>x. key k = key x) fl"
      for k
      by (simp add: same sortFilesByDate_stable)
    show "sorted (map key (sortFilesByDate fl sb))"
      using sortFilesByDate_sorted [of sb fl] by (simp add: le sorted_map)
  qed
  ultimately show ?thesis by simp
qed

lemma filesList_times:
  "filesList P c po objects = Inr fl \<Longrightarrow> map lastModified fl = map LastModified objects"
  by (induction objects arbitrary: fl) (auto split: sum.splits if_splits)

lemma listPathFiles_eq:
  assumes "listPathObjects P path s = (Inr objects, s1)"
    and "filesList P (self s) (pathOnly options) objects = Inr fl"
  shows "listPathFiles P path options s = (Inr (sortFilesByDate fl (sortByDate options)), s1)"
proof -
  from assms(1) have "self s1 = self s" by (auto simp: listPathObjects_eq)
  with assms show ?thesis by (simp add: listPathFiles_def)
qed

lemma filesList_pathOnly:
  "filesList P c True objects =
     Inr (map (\<lambda>ob. \<lparr>url = Key ob, lastModified = LastModified ob\<rparr>) objects)"
  by (induction objects) auto

lemma filesList_urls:
  "\<forall>ob\<in>set objects. getCDNURL P c (Key ob) = Inr (u ob) \<Longrightarrow>
   filesList P c False objects =
     Inr (map (\<lambda>ob. \<lparr>url = u ob, lastModified = LastModified ob\<rparr>) objects)"
  by (induction objects) auto

lemma mem_listing:
  "listPathObjects (mem_gateway eps contents strict stream) path (mem_state c) =
     (Inr contents, \<lparr>self = c, world = [], files = Map.empty,
                     calls = [S3ListObjectsV2 (bucket c) path]\<rparr>)"
  by (simp add: listPathObjects_eq mem_gateway_sel mem_state_def)

lemma mem_getCDNURL:
  "getCDNURL (mem_gateway eps contents strict stream) (mem_client token cdnId None) path =
     Inr (''https://cdn.digitaloceanspaces/'' @ path)"
  by (simp add: getCDNURL_def getURL_def truthy_def mem_gateway_sel mem_client_sel
        mem_url_new_def mem_url_href_def mem_url_set_host_def)

text \<open>
  Claim C2. When the gateway lists \<open>objects\<close> and the entries built from them, in the
  order of the listing, are \<open>fl\<close>, \<open>listPathFiles\<close> returns \<open>fl\<close> sorted: the entries
  are those of \<open>fl\<close>, with the timestamps of the records; they are in non-decreasing
  order of \<open>lastModified\<close> unless \<open>sortByDate\<close> is \<open>DESC\<close> (so for \<open>ASC\<close>, for any other
  value and for an absent one), and in non-increasing order when it is \<open>DESC\<close>; and the
  entries of any one timestamp keep the order they have in the listing.
\<close>

theorem listPathFiles_sorted_stable:
  assumes "listPathObjects P path s = (Inr objects, s1)"
    and "filesList P (self s) (pathOnly options) objects = Inr fl"
  shows "fst (listPathFiles P path options s) = Inr (sortFilesByDate fl (sortByDate options))
    \<and> map lastModified fl = map LastModified objects
    \<and> (sortByDate options \<noteq> Some ''DESC'' \<longrightarrow>
         sorted_wrt (\<lambda>a b. lastModified a \<le> lastModified b)
           (sortFilesByDate fl (sortByDate options)))
    \<and> (sortByDate options = Some ''DESC'' \<longrightarrow>
         sorted_wrt (\<lambda>a b. lastModified b \<le> lastModified a)
           (sortFilesByDate fl (sortByDate options)))
    \<and> mset (sortFilesByDate fl (sortByDate options)) = mset fl
    \<and> (\<forall>t. filter (\<lambda>f. lastModified f = t) (sortFilesByDate fl (sortByDate options))
            = filter (\<lambda>f. lastModified f = t) fl)"
proof (intro conjI impI allI)
  show "fst (listPathFiles P path options s) = Inr (sortFilesByDate fl (sortByDate options))"
    by (simp add: listPathFiles_eq [OF assms])
  show "map lastModified fl = map LastModified objects"
    by (rule filesList_times [OF assms(2)])
  show "mset (sortFilesByDate fl (sortByDate options)) = mset fl"
    by (simp add: sortFilesByDate_def mset_array_sort)
next
  assume "sortByDate options \<noteq> Some ''DESC''"
  with sortFilesByDate_sorted [of "sortByDate options" fl]
  show "sorted_wrt (\<lambda>a b. lastModified a \<le> lastModified b)
           (sortFilesByDate fl (sortByDate options))"
    by (simp add: compareFiles_le)
next
  assume "sortByDate options = Some ''DESC''"
  with sortFilesByDate_sorted [of "sortByDate options" fl]
  show "sorted_wrt (\<lambda>a b. lastModified b \<le> lastModified a)
           (sortFilesByDate fl (sortByDate options))"
    by (simp add: compareFiles_le)
next
  fix t
  show "filter (\<lambda>f. lastModified f = t) (sortFilesByDate fl (sortByDate options))
            = filter (\<lambda>f. lastModified f = t) fl"
    by (rule sortFilesByDate_stable)
qed

theorem listPathFiles_sorted_stable_witness:
  "fst (listPathObjects (mem_gateway [] sample_objects False ([], None)) ''tmp/''
          (mem_state (mem_client None None None))) = Inr sample_objects
   \<and> filesList (mem_gateway [] sample_objects False ([], None)) (mem_client None None None)
        True sample_objects
       = Inr [\<lparr>url = ''tmp/a.png'', lastModified = 1700000005000\<rparr>,
              \<lparr>url = ''tmp/b.png'', lastModified = 1700000003000\<rparr>,
              \<lparr>url = ''tmp/c.png'', lastModified = 1700000005000\<rparr>]
   \<and> fst (listPathFiles (mem_gateway [] sample_objects False ([], None)) ''tmp/''
          \<lparr>sortByDate = Some ''DESC'', pathOnly = True\<rparr> (mem_state (mem_client None None None)))
       = Inr [\<lparr>url = ''tmp/a.png'', lastModified = 1700000005000\<rparr>,
              \<lparr>url = ''tmp/c.png'', lastModified = 1700000005000\<rparr>,
              \<lparr>url = ''tmp/b.png'', lastModified = 1700000003000\<rparr>]
   \<and> fst (listPathFiles (mem_gateway [] sample_objects False ([], None)) ''tmp/''
          \<lparr>sortByDate = Some ''newest'', pathOnly = True\<rparr> (mem_state (mem_client None None None)))
       = Inr [\<lparr>url = ''tmp/b.png'', lastModified = 1700000003000\<rparr>,
              \<lparr>url = ''tmp/a.png'', lastModified = 1700000005000\<rparr>,
              \<lparr>url = ''tmp/c.png'', lastModified = 1700000005000\<rparr>]"
proof -
  let ?P = "mem_gateway [] sample_objects False ([], None)"
  let ?s = "mem_state (mem_client None None None)"
  let ?fl = "[\<lparr>url = ''tmp/a.png'', lastModified = 1700000005000\<rparr>,
              \<lparr>url = ''tmp/b.png'', lastModified = 1700000003000\<rparr>,
              \<lparr>url = ''tmp/c.png'', lastModified = 1700000005000\<rparr>]"
  have h1: "listPathObjects ?P ''tmp/'' ?s =
      (Inr sample_objects, \<lparr>self = mem_client None None None, world = [], files = Map.empty,
         calls = [S3ListObjectsV2 (bucket (mem_client None None None)) ''tmp/'']\<rparr>)"
    by (rule mem_listing)
  have fl: "filesList ?P (mem_client None None None) True sample_objects = Inr ?fl"
    by (simp add: filesList_pathOnly sample_objects_def)
  have h2: "filesList ?P (self ?s) (pathOnly \<lparr>sortByDate = Some ''DESC'', pathOnly = True\<rparr>)
              sample_objects = Inr ?fl"
    and h3: "filesList ?P (self ?s) (pathOnly \<lparr>sortByDate = Some ''newest'', pathOnly = True\<rparr>)
              sample_objects = Inr ?fl"
    using fl by (simp_all add: mem_state_sel)
  have d: "sortFilesByDate ?fl (Some ''DESC'') =
             [\<lparr>url = ''tmp/a.png'', lastModified = 1700000005000\<rparr>,
              \<lparr>url = ''tmp/c.png'', lastModified = 1700000005000\<rparr>,
              \<lparr>url = ''tmp/b.png'', lastModified = 1700000003000\<rparr>]"
    and a: "sortFilesByDate ?fl (Some ''newest'') =
             [\<lparr>url = ''tmp/b.png'', lastModified = 1700000003000\<rparr>,
              \<lparr>url = ''tmp/a.png'', lastModified = 1700000005000\<rparr>,
              \<lparr>url = ''tmp/c.png'', lastModified = 1700000005000\<rparr>]"
    by (simp_all add: sortFilesByDate_def compareFiles_def)
  from listPathFiles_sorted_stable [OF h1 h2] listPathFiles_sorted_stable [OF h1 h3] h1 fl d a
  show ?thesis by simp
qed

text \<open>
  Claim C9. When the gateway lists \<open>objects\<close>, the entries that \<open>listPathFiles\<close> returns
  are, one for each record of the listing: with \<open>pathOnly\<close>, the key of the record with
  its \<open>LastModified\<close>; without it, \<open>getCDNURL\<close> of the key with the \<open>LastModified\<close> of
  the record, provided \<open>getCDNURL\<close> returns a URL for every key.
\<close>

theorem listPathFiles_locators:
  assumes "listPathObjects P path s = (Inr objects, s1)"
  shows "(pathOnly options \<longrightarrow>
           (\<exists>fs. fst (listPathFiles P path options s) = Inr fs \<and>
              mset fs =
                mset (map (\<lambda>ob. \<lparr>url = Key ob, lastModified = LastModified ob\<rparr>) objects)))
    \<and> (\<not> pathOnly options \<and>
         (\<forall>ob\<in>set objects. getCDNURL P (self s) (Key ob) = Inr (u ob)) \<longrightarrow>
           (\<exists>fs. fst (listPathFiles P path options s) = Inr fs \<and>
              mset fs =
                mset (map (\<lambda>ob. \<lparr>url = u ob, lastModified = LastModified ob\<rparr>) objects)))"
proof (intro conjI impI)
  assume po: "pathOnly options"
  then have "filesList P (self s) (pathOnly options) objects =
     Inr (map (\<lambda>ob. \<lparr>url = Key ob, lastModified = LastModified ob\<rparr>) objects)"
    by (simp add: filesList_pathOnly)
  from listPathFiles_eq [OF assms this]
  show "\<exists>fs. fst (listPathFiles P path options s) = Inr fs \<and>
          mset fs = mset (map (\<lambda>ob. \<lparr>url = Key ob, lastModified = LastModified ob\<rparr>) objects)"
    by (simp add: sortFilesByDate_def mset_array_sort)
next
  assume a: "\<not> pathOnly options \<and>
             (\<forall>ob\<in>set objects. getCDNURL P (self s) (Key ob) = Inr (u ob))"
  then have "filesList P (self s) (pathOnly options) objects =
     Inr (map (\<lambda>ob. \<lparr>url = u ob, lastModified = LastModified ob\<rparr>) objects)"
    by (simp add: filesList_urls)
  from listPathFiles_eq [OF assms this]
  show "\<exists>fs. fst (listPathFiles P path options s) = Inr fs \<and>
          mset fs = mset (map (\<lambda>ob. \<lparr>url = u ob, lastModified = LastModified ob\<rparr>) objects)"
    by (simp add: sortFilesByDate_def mset_array_sort)
qed

theorem listPathFiles_locators_witness:
  "fst (listPathObjects (mem_gateway [] sample_objects False ([], None)) ''tmp/''
          (mem_state (mem_client None None None))) = Inr sample_objects
   \<and> getCDNURL (mem_gateway [] sample_objects False ([], None)) (mem_client None None None)
        ''tmp/b.png'' = Inr ''https://cdn.digitaloceanspaces/tmp/b.png''
   \<and> fst (listPathFiles (mem_gateway [] sample_objects False ([], None)) ''tmp/''
          \<lparr>sortByDate = None, pathOnly = True\<rparr> (mem_state (mem_client None None None)))
       = Inr [\<lparr>url = ''tmp/b.png'', lastModified = 1700000003000\<rparr>,
              \<lparr>url = ''tmp/a.png'', lastModified = 1700000005000\<rparr>,
              \<lparr>url = ''tmp/c.png'', lastModified = 1700000005000\<rparr>]
   \<and> fst (listPathFiles (mem_gateway [] sample_objects False ([], None)) ''tmp/''
          \<lparr>sortByDate = None, pathOnly = False\<rparr> (mem_state (mem_client None None None)))
       = Inr [\<lparr>url = ''https://cdn.digitaloceanspaces/tmp/b.png'', lastModified = 1700000003000\<rparr>,
              \<lparr>url = ''https://cdn.digitaloceanspaces/tmp/a.png'', lastModified = 1700000005000\<rparr>,
              \<lparr>url = ''https://cdn.digitaloceanspaces/tmp/c.png'', lastModified = 1700000005000\<rparr>]"
proof -
  let ?P = "mem_gateway [] sample_objects False ([], None)"
  let ?s = "mem_state (mem_client None None None)"
  have h1: "listPathObjects ?P ''tmp/'' ?s =
      (Inr sample_objects, \<lparr>self = mem_client None None None, world = [], files = Map.empty,
         calls = [S3ListObjectsV2 (bucket (mem_client None None None)) ''tmp/'']\<rparr>)"
    by (rule mem_listing)
  have urls: "\<forall>ob\<in>set sample_objects.
      getCDNURL ?P (self ?s) (Key ob) = Inr (''https://cdn.digitaloceanspaces/'' @ Key ob)"
    by (simp add: mem_state_sel mem_getCDNURL)
  have p: "fst (listPathFiles ?P ''tmp/'' \<lparr>sortByDate = None, pathOnly = True\<rparr> ?s)
       = Inr [\<lparr>url = ''tmp/b.png'', lastModified = 1700000003000\<rparr>,
              \<lparr>url = ''tmp/a.png'', lastModified = 1700000005000\<rparr>,
              \<lparr>url = ''tmp/c.png'', lastModified = 1700000005000\<rparr>]"
    by (simp add: listPathFiles_def mem_listing sample_objects_def sortFilesByDate_def
          compareFiles_def)
  have q: "fst (listPathFiles ?P ''tmp/'' \<lparr>sortByDate = None, pathOnly = False\<rparr> ?s)
       = Inr [\<lparr>url = ''https://cdn.digitaloceanspaces/tmp/b.png'', lastModified = 1700000003000\<rparr>,
              \<lparr>url = ''https://cdn.digitaloceanspaces/tmp/a.png'', lastModified = 1700000005000\<rparr>,
              \<lparr>url = ''https://cdn.digitaloceanspaces/tmp/c.png'', lastModified = 1700000005000\<rparr>]"
    by (simp add: listPathFiles_def mem_listing sample_objects_def sortFilesByDate_def
          compareFiles_def mem_getCDNURL)
  from listPathFiles_locators [OF h1, of "\<lparr>sortByDate = None, pathOnly = True\<rparr>"]
       listPathFiles_locators [OF h1, of "\<lparr>sortByDate = None, pathOnly = False\<rparr>"
          "\<lambda>ob. ''https://cdn.digitaloceanspaces/'' @ Key ob"]
       urls h1 p q
  show ?thesis by (simp add: mem_getCDNURL)
qed

subsection \<open>The CDN URL\<close>

text \<open>
  Claim C6, as the code has it. \<open>getCDNURL\<close> is a function of the platform's URL
  class, the configuration and the path alone: it takes no state and reaches no
  gateway, and of the client it reads the bucket, the endpoint and the custom CDN
  host only. Let \<open>u\<close> be the URL object of \<open>getURL(path)\<close> and \<open>h\<close> the custom CDN host
  when one is configured (not null, not empty), the fixed host
  \<open>cdn.digitaloceanspaces\<close> otherwise. The result is the \<open>href\<close> of \<open>u\<close> after the
  assignment of \<open>h\<close> to its \<open>host\<close>. What the host of the result is, the host setter of
  the URL class decides, for the code does not look at \<open>h\<close>: when the setter takes \<open>h\<close>
  as it is, the result is the \<open>href\<close> of \<open>u\<close> with the host \<open>h\<close>, and, where an \<open>href\<close>
  reads back as its URL, the result reads as a URL with the host \<open>h\<close> and the protocol,
  pathname, search and hash of \<open>getURL(path)\<close>; when the setter refuses \<open>h\<close> and
  leaves the URL as it is, the result is the \<open>href\<close> of \<open>u\<close> itself, with the host of
  \<open>getURL(path)\<close>.
\<close>

theorem getCDNURL_host:
  assumes "url_new P (getURL c path) = Some u"
    and "h = (case customCdnHost c of
                None \<Rightarrow> ''cdn.digitaloceanspaces''
              | Some x \<Rightarrow> if x = [] then ''cdn.digitaloceanspaces'' else x)"
  shows "getCDNURL P c path = Inr (url_href P (url_set_host P u h))
       \<and> (\<forall>c'. bucket c' = bucket c \<and> endpoint c' = endpoint c \<and>
               customCdnHost c' = customCdnHost c \<longrightarrow>
               getCDNURL P c' path = getCDNURL P c path)
       \<and> (url_set_host P u h = u\<lparr>url_host := h\<rparr> \<longrightarrow>
            getCDNURL P c path = Inr (url_href P (u\<lparr>url_host := h\<rparr>)))
       \<and> (url_set_host P u h = u\<lparr>url_host := h\<rparr> \<and>
          url_new P (url_href P (u\<lparr>url_host := h\<rparr>)) = Some (u\<lparr>url_host := h\<rparr>) \<longrightarrow>
            (\<exists>r u'. getCDNURL P c path = Inr r \<and> url_new P r = Some u' \<and>
               url_host u' = h \<and> url_protocol u' = url_protocol u \<and>
               url_pathname u' = url_pathname u \<and> url_search u' = url_search u \<and>
               url_hash u' = url_hash u))
       \<and> (url_set_host P u h = u \<longrightarrow> getCDNURL P c path = Inr (url_href P u))"
proof -
  have eq: "getCDNURL P c path = Inr (url_href P (url_set_host P u h))"
    using assms by (auto simp: getCDNURL_def truthy_def split: option.splits)
  have pure: "\<forall>c'. bucket c' = bucket c \<and> endpoint c' = endpoint c \<and>
               customCdnHost c' = customCdnHost c \<longrightarrow>
               getCDNURL P c' path = getCDNURL P c path"
  proof (intro allI impI)
    fix c' :: client
    assume a: "bucket c' = bucket c \<and> endpoint c' = endpoint c \<and>
               customCdnHost c' = customCdnHost c"
    then have "getURL c' path = getURL c path" by (simp add: getURL_def)
    with a show "getCDNURL P c' path = getCDNURL P c path"
      by (simp add: getCDNURL_def split: option.splits)
  qed
  have read: "\<exists>r u'. getCDNURL P c path = Inr r \<and> url_new P r = Some u' \<and>
               url_host u' = h \<and> url_protocol u' = url_protocol u \<and>
               url_pathname u' = url_pathname u \<and> url_search u' = url_search u \<and>
               url_hash u' = url_hash u"
    if "url_set_host P u h = u\<lparr>url_host := h\<rparr>"
      and "url_new P (url_href P (u\<lparr>url_host := h\<rparr>)) = Some (u\<lparr>url_host := h\<rparr>)"
    using that eq
    by (intro exI [of _ "url_href P (u\<lparr>url_host := h\<rparr>)"] exI [of _ "u\<lparr>url_host := h\<rparr>"]) simp
  show ?thesis
  proof (intro conjI impI)
    show "getCDNURL P c path = Inr (url_href P (url_set_host P u h))" by (rule eq)
    show "\<forall>c'. bucket c' = bucket c \<and> endpoint c' = endpoint c \<and>
               customCdnHost c' = customCdnHost c \<longrightarrow>
               getCDNURL P c' path = getCDNURL P c path" by (rule pure)
  next
    assume "url_set_host P u h = u\<lparr>url_host := h\<rparr>"
    with eq show "getCDNURL P c path = Inr (url_href P (u\<lparr>url_host := h\<rparr>))" by simp
  next
    assume "url_set_host P u h = u\<lparr>url_host := h\<rparr> \<and>
          url_new P (url_href P (u\<lparr>url_host := h\<rparr>)) = Some (u\<lparr>url_host := h\<rparr>)"
    then show "\<exists>r u'. getCDNURL P c path = Inr r \<and> url_new P r = Some u' \<and>
               url_host u' = h \<and> url_protocol u' = url_protocol u \<and>
               url_pathname u' = url_pathname u \<and> url_search u' = url_search u \<and>
               url_hash u' = url_hash u"
      using read by blast
  next
    assume "url_set_host P u h = u"
    with eq show "getCDNURL P c path = Inr (url_href P u)" by simp
  qed
qed

theorem getCDNURL_host_witness:
  "url_new (mem_gateway [] [] False ([], None))
       (getURL (mem_client None None (Some ''cdn.example.com'')) ''img/a.png'')
     = Some \<lparr>url_protocol = ''https:'', url_host = ''media.nyc3.digitaloceanspaces.com'',
             url_pathname = ''/img/a.png'', url_search = [], url_hash = []\<rparr>
   \<and> getCDNURL (mem_gateway [] [] False ([], None))
       (mem_client None None (Some ''cdn.example.com'')) ''img/a.png''
     = Inr ''https://cdn.example.com/img/a.png''
   \<and> url_new (mem_gateway [] [] False ([], None)) ''https://cdn.example.com/img/a.png''
     = Some \<lparr>url_protocol = ''https:'', url_host = ''cdn.example.com'',
             url_pathname = ''/img/a.png'', url_search = [], url_hash = []\<rparr>
   \<and> getCDNURL (mem_gateway [] [] False ([], None))
       (mem_client None None None) ''img/a.png''
     = Inr ''https://cdn.digitaloceanspaces/img/a.png''
   \<and> getCDNURL (mem_gateway [] [] False ([], None))
       (mem_client (Some ''dop_v1'') (Some ''892071a0'') (Some [])) ''img/a.png''
     = Inr ''https://cdn.digitaloceanspaces/img/a.png''
   \<and> url_set_host (mem_gateway [] [] False ([], None))
       \<lparr>url_protocol = ''https:'', url_host = ''media.nyc3.digitaloceanspaces.com'',
        url_pathname = ''/img/a.png'', url_search = [], url_hash = []\<rparr> ''bad host''
     = \<lparr>url_protocol = ''https:'', url_host = ''media.nyc3.digitaloceanspaces.com'',
        url_pathname = ''/img/a.png'', url_search = [], url_hash = []\<rparr>
   \<and> getCDNURL (mem_gateway [] [] False ([], None))
       (mem_client None None (Some ''bad host'')) ''img/a.png''
     = Inr ''https://media.nyc3.digitaloceanspaces.com/img/a.png''"
proof -
  let ?P = "mem_gateway [] [] False ([], None)"
  let ?u = "\<lparr>url_protocol = ''https:'', url_host = ''media.nyc3.digitaloceanspaces.com'',
             url_pathname = ''/img/a.png'', url_search = [], url_hash = []\<rparr>"
  have u: "url_new ?P (getURL (mem_client token cdnId customHost) ''img/a.png'') = Some ?u"
    for token cdnId customHost
    by (simp add: getURL_def mem_client_sel mem_gateway_sel mem_url_new_def)
  have h1: "''cdn.example.com'' =
      (case customCdnHost (mem_client None None (Some ''cdn.example.com'')) of
         None \<Rightarrow> ''cdn.digitaloceanspaces''
       | Some x \<Rightarrow> if x = [] then ''cdn.digitaloceanspaces'' else x)"
    and h2: "''cdn.digitaloceanspaces'' =
      (case customCdnHost (mem_client None None None) of
         None \<Rightarrow> ''cdn.digitaloceanspaces''
       | Some x \<Rightarrow> if x = [] then ''cdn.digitaloceanspaces'' else x)"
    and h3: "''cdn.digitaloceanspaces'' =
      (case customCdnHost (mem_client (Some ''dop_v1'') (Some ''892071a0'') (Some [])) of
         None \<Rightarrow> ''cdn.digitaloceanspaces''
       | Some x \<Rightarrow> if x = [] then ''cdn.digitaloceanspaces'' else x)"
    and h4: "''bad host'' =
      (case customCdnHost (mem_client None None (Some ''bad host'')) of
         None \<Rightarrow> ''cdn.digitaloceanspaces''
       | Some x \<Rightarrow> if x = [] then ''cdn.digitaloceanspaces'' else x)"
    by (simp_all add: mem_client_sel)
  have s1: "url_set_host ?P ?u ''cdn.example.com'' = ?u\<lparr>url_host := ''cdn.example.com''\<rparr>"
    and s2: "url_set_host ?P ?u ''cdn.digitaloceanspaces''
               = ?u\<lparr>url_host := ''cdn.digitaloceanspaces''\<rparr>"
    and s4: "url_set_host ?P ?u ''bad host'' = ?u"
    by (simp_all add: mem_gateway_sel mem_url_set_host_def)
  have reread: "url_new ?P (url_href ?P (?u\<lparr>url_host := ''cdn.example.com''\<rparr>))
                = Some (?u\<lparr>url_host := ''cdn.example.com''\<rparr>)"
    by (simp add: mem_gateway_sel mem_url_new_def mem_url_href_def)
  have a: "getCDNURL ?P (mem_client None None (Some ''cdn.example.com'')) ''img/a.png''
             = Inr ''https://cdn.example.com/img/a.png''"
    using getCDNURL_host [OF u h1, THEN conjunct1]
    by (simp add: mem_gateway_sel mem_url_href_def mem_url_set_host_def)
  have b: "getCDNURL ?P (mem_client None None None) ''img/a.png''
             = Inr ''https://cdn.digitaloceanspaces/img/a.png''"
    using getCDNURL_host [OF u h2, THEN conjunct1]
    by (simp add: mem_gateway_sel mem_url_href_def mem_url_set_host_def)
  have c: "getCDNURL ?P (mem_client (Some ''dop_v1'') (Some ''892071a0'') (Some [])) ''img/a.png''
             = Inr ''https://cdn.digitaloceanspaces/img/a.png''"
    using getCDNURL_host [OF u h3, THEN conjunct1]
    by (simp add: mem_gateway_sel mem_url_href_def mem_url_set_host_def)
  have d: "getCDNURL ?P (mem_client None None (Some ''bad host'')) ''img/a.png''
             = Inr ''https://media.nyc3.digitaloceanspaces.com/img/a.png''"
    using getCDNURL_host [OF u h4, THEN conjunct1]
    by (simp add: mem_gateway_sel mem_url_href_def mem_url_set_host_def)
  have r: "url_new ?P ''https://cdn.example.com/img/a.png''
     = Some \<lparr>url_protocol = ''https:'', url_host = ''cdn.example.com'',
             url_pathname = ''/img/a.png'', url_search = [], url_hash = []\<rparr>"
    using reread by (simp add: mem_gateway_sel mem_url_href_def)
  from u a r b c s4 d show ?thesis by (intro conjI)
qed

text \<open>
  Claim C6 as stated fails for a custom CDN host that the host setter of the URL class
  does not take: with the custom host \<open>bad host\<close> the setter leaves the URL as it is,
  and the result has the host of \<open>getURL(path)\<close>, which is neither the custom host nor
  the default one.
\<close>

theorem getCDNURL_host_counterexample:
  "customCdnHost (mem_client None None (Some ''bad host'')) = Some ''bad host''
   \<and> getURL (mem_client None None (Some ''bad host'')) ''img/a.png''
       = ''https://media.nyc3.digitaloceanspaces.com/img/a.png''
   \<and> getCDNURL (mem_gateway [] [] False ([], None))
       (mem_client None None (Some ''bad host'')) ''img/a.png''
       = Inr ''https://media.nyc3.digitaloceanspaces.com/img/a.png''
   \<and> url_new (mem_gateway [] [] False ([], None))
       ''https://media.nyc3.digitaloceanspaces.com/img/a.png''
       = Some \<lparr>url_protocol = ''https:'', url_host = ''media.nyc3.digitaloceanspaces.com'',
               url_pathname = ''/img/a.png'', url_search = [], url_hash = []\<rparr>"
  by (simp add: getCDNURL_def getURL_def truthy_def mem_client_sel mem_gateway_sel
        mem_url_new_def mem_url_href_def mem_url_set_host_def)

subsection \<open>Downloading\<close>

lemma createWriteStream_eq:
  "createWriteStream P path s =
     (fst (fs_open P path (world s)),
      (case fst (fs_open P path (world s)) of
         Inl e \<Rightarrow> s\<lparr>world := snd (fs_open P path (world s)),
                    calls := calls s @ [FsCreateWriteStream path]\<rparr>
       | Inr u \<Rightarrow> s\<lparr>world := snd (fs_open P path (world s)),
                    files := (files s)(path \<mapsto> []),
                    calls := calls s @ [FsCreateWriteStream path]\<rparr>))"
  by (simp add: createWriteStream_def split: prod.splits sum.splits)

lemma unlinkSync_existing:
  "files s path = Some content \<Longrightarrow>
     unlinkSync path s = (Inr (), s\<lparr>files := (files s)(path := None)\<rparr>)"
  by (simp add: unlinkSync_def)

lemma pipe_existing:
  "files s path = Some content \<Longrightarrow>
     pipe chunks path s = s\<lparr>files := (files s)(path \<mapsto> content @ concat chunks)\<rparr>"
  by (simp add: pipe_def)

text \<open>What the handler of the code does reach: the request fails before its body
  arrives, and the write stream has opened the file. The file is removed and the call
  fails with the error of the request.\<close>

lemma downloadFile_request_error:
  assumes "(if createDirIfNotExists then mkdir P (path_dirname P filePathToSave) s
            else (Inr (), s)) = (Inr (), s1)"
    and "fst (fs_open P filePathToSave (world s1)) = Inr ()"
    and "fst (s3_getObject P (bucket (self s1)) filePathToRead
               (snd (fs_open P filePathToSave (world s1)))) = Inl e"
  shows "fst (downloadFile P filePathToRead filePathToSave createDirIfNotExists s) = Inl e
       \<and> files (snd (downloadFile P filePathToRead filePathToSave createDirIfNotExists s))
           filePathToSave = None"
proof -
  define s2 where "s2 = snd (createWriteStream P filePathToSave s1)"
  have cw: "createWriteStream P filePathToSave s1 = (Inr (), s2)"
    and f2: "files s2 filePathToSave = Some []"
    and w2: "world s2 = snd (fs_open P filePathToSave (world s1))"
    and c2: "self s2 = self s1"
    using assms(2) by (simp_all add: s2_def createWriteStream_eq)
  define s3 where "s3 = snd (s3client_getObject P (bucket (self s2)) filePathToRead s2)"
  have get: "s3client_getObject P (bucket (self s2)) filePathToRead s2 = (Inl e, s3)"
    using assms(3) by (simp add: s3_def s3client_getObject_eq w2 c2)
  have f3: "files s3 filePathToSave = Some []"
    by (simp add: s3_def s3client_getObject_eq f2)
  have un: "unlinkSync filePathToSave s3 =
              (Inr (), s3\<lparr>files := (files s3)(filePathToSave := None)\<rparr>)"
    by (rule unlinkSync_existing [OF f3])
  have "downloadFile P filePathToRead filePathToSave createDirIfNotExists s =
          (Inl e, s3\<lparr>files := (files s3)(filePathToSave := None)\<rparr>)"
    unfolding downloadFile_def assms(1) using cw get un by simp
  then show ?thesis by simp
qed

text \<open>What the handler does not reach: the response has begun and the read stream
  ends, whether the object has arrived whole or the transfer has broken after some
  chunks. The call resolves and the file holds the chunks delivered.\<close>

lemma downloadFile_stream_ends:
  assumes "(if createDirIfNotExists then mkdir P (path_dirname P filePathToSave) s
            else (Inr (), s)) = (Inr (), s1)"
    and "fst (fs_open P filePathToSave (world s1)) = Inr ()"
    and "fst (s3_getObject P (bucket (self s1)) filePathToRead
               (snd (fs_open P filePathToSave (world s1)))) = Inr (chunks, failure)"
  shows "fst (downloadFile P filePathToRead filePathToSave createDirIfNotExists s)
           = Inr filePathToSave
       \<and> files (snd (downloadFile P filePathToRead filePathToSave createDirIfNotExists s))
           filePathToSave = Some (concat chunks)"
proof -
  define s2 where "s2 = snd (createWriteStream P filePathToSave s1)"
  have cw: "createWriteStream P filePathToSave s1 = (Inr (), s2)"
    and f2: "files s2 filePathToSave = Some []"
    and w2: "world s2 = snd (fs_open P filePathToSave (world s1))"
    and c2: "self s2 = self s1"
    using assms(2) by (simp_all add: s2_def createWriteStream_eq)
  define s3 where "s3 = snd (s3client_getObject P (bucket (self s2)) filePathToRead s2)"
  have get: "s3client_getObject P (bucket (self s2)) filePathToRead s2 =
               (Inr (chunks, failure), s3)"
    using assms(3) by (simp add: s3_def s3client_getObject_eq w2 c2)
  have f3: "files s3 filePathToSave = Some []"
    by (simp add: s3_def s3client_getObject_eq f2)
  have "downloadFile P filePathToRead filePathToSave createDirIfNotExists s =
          (Inr filePathToSave, pipe chunks filePathToSave s3)"
    unfolding downloadFile_def assms(1) using cw get by simp
  then show ?thesis by (simp add: pipe_existing [OF f3])
qed

text \<open>The write stream could not open the file and there is no file at the path: the
  request fails, \<open>unlinkSync\<close> throws in the handler, and \<open>reject\<close> is not reached.\<close>

lemma downloadFile_not_opened:
  assumes "(if createDirIfNotExists then mkdir P (path_dirname P filePathToSave) s
            else (Inr (), s)) = (Inr (), s1)"
    and "fst (fs_open P filePathToSave (world s1)) = Inl oe"
    and "files s1 filePathToSave = None"
    and "fst (s3_getObject P (bucket (self s1)) filePathToRead
               (snd (fs_open P filePathToSave (world s1)))) = Inl e"
  shows "fst (downloadFile P filePathToRead filePathToSave createDirIfNotExists s)
           = Inl (Uncaught (ServiceError ''ENOENT''))"
proof -
  define s2 where "s2 = snd (createWriteStream P filePathToSave s1)"
  have cw: "createWriteStream P filePathToSave s1 = (Inl oe, s2)"
    and f2: "files s2 filePathToSave = None"
    and w2: "world s2 = snd (fs_open P filePathToSave (world s1))"
    and c2: "self s2 = self s1"
    using assms(2,3) by (simp_all add: s2_def createWriteStream_eq)
  define s3 where "s3 = snd (s3client_getObject P (bucket (self s2)) filePathToRead s2)"
  have get: "s3client_getObject P (bucket (self s2)) filePathToRead s2 = (Inl e, s3)"
    using assms(4) by (simp add: s3_def s3client_getObject_eq w2 c2)
  have f3: "files s3 filePathToSave = None"
    by (simp add: s3_def s3client_getObject_eq f2)
  then have un: "unlinkSync filePathToSave s3 = (Inl (ServiceError ''ENOENT''), s3)"
    by (simp add: unlinkSync_def)
  have "downloadFile P filePathToRead filePathToSave createDirIfNotExists s =
          (Inl (Uncaught (ServiceError ''ENOENT'')), s3)"
    unfolding downloadFile_def assms(1) using cw get un by simp
  then show ?thesis by simp
qed

text \<open>
  Claim C7. The claim is that on every error of the read stream the file written so far
  is removed and the call fails with that error. The code has the handler that does
  so, and puts it on the request; the read stream gets none. Here the directory is
  made, the file is opened, the response begins, and the transfer breaks with
  \<open>ECONNRESET\<close> after the chunks \<open>ab\<close> and \<open>cd\<close>: the call resolves with the path, as
  after a whole download, and the file stays, holding \<open>abcd\<close>.
\<close>

theorem downloadFile_broken_transfer:
  "fst (s3_getObject
          (mem_gateway [] [] False ([''ab'', ''cd''], Some (ServiceError ''ECONNRESET'')))
          ''media'' ''img/a.png'' [])
     = Inr ([''ab'', ''cd''], Some (ServiceError ''ECONNRESET''))
   \<and> fst (downloadFile
          (mem_gateway [] [] False ([''ab'', ''cd''], Some (ServiceError ''ECONNRESET'')))
          ''img/a.png'' ''/tmp/x/out.png'' True (mem_state (mem_client None None None)))
     = Inr ''/tmp/x/out.png''
   \<and> files (snd (downloadFile
          (mem_gateway [] [] False ([''ab'', ''cd''], Some (ServiceError ''ECONNRESET'')))
          ''img/a.png'' ''/tmp/x/out.png'' True (mem_state (mem_client None None None))))
       ''/tmp/x/out.png'' = Some ''abcd''
   \<and> calls (snd (downloadFile
          (mem_gateway [] [] False ([''ab'', ''cd''], Some (ServiceError ''ECONNRESET'')))
          ''img/a.png'' ''/tmp/x/out.png'' True (mem_state (mem_client None None None))))
     = [FsMkdir ''/tmp/x'', FsCreateWriteStream ''/tmp/x/out.png'',
        S3GetObject ''media'' ''img/a.png'']"
  by (simp add: downloadFile_def mkdir_eq createWriteStream_eq s3client_getObject_eq pipe_def
        mem_gateway_sel mem_state_def mem_client_sel)

end
